theory Spec2Isabelle
  imports Main "HOL-Library.Sublist"
begin

section \<open>Flowforge backend: tasks and the organisation tree\<close>

text \<open>
  The backend is a FastAPI application over SQLAlchemy. Every repository function of
  \<^verbatim>\<open>crud.py\<close> takes the session \<^verbatim>\<open>db\<close>; here the session is the explicit
  state \<open>db\<close>, a record of the four tables, and a function that writes returns the new
  state together with its result. What the storage engine chooses for an insert or an
  update (the generated primary key, the value of \<^verbatim>\<open>func.now()\<close>) is an argument
  of the operation: \<open>nid\<close> and \<open>now\<close>.
\<close>

subsection \<open>Rows (models.py) and payloads (schemas.py)\<close>

type_synonym datetime = int

text \<open>\<^verbatim>\<open>class Task(Base)\<close>: \<^verbatim>\<open>created_at\<close> has \<^verbatim>\<open>server_default=func.now()\<close>,
  \<^verbatim>\<open>updated_at\<close> has only \<^verbatim>\<open>onupdate=func.now()\<close> and is NULL on insert.\<close>

record task_row =
  t_id :: int
  t_title :: string
  t_description :: "string option"
  t_completed :: bool
  t_created_at :: datetime
  t_updated_at :: "datetime option"

record department_row =
  d_id :: int
  d_name :: string
  d_description :: "string option"
  d_created_at :: datetime
  d_updated_at :: "datetime option"

record role_row =
  r_id :: int
  r_name :: string
  r_description :: "string option"
  r_department_id :: int
  r_created_at :: datetime
  r_updated_at :: "datetime option"

record function_row =
  f_id :: int
  f_name :: string
  f_description :: "string option"
  f_role_id :: int
  f_created_at :: datetime
  f_updated_at :: "datetime option"

text \<open>\<^verbatim>\<open>TaskCreate\<close>, \<^verbatim>\<open>DepartmentCreate\<close>, \<^verbatim>\<open>RoleCreate\<close>, \<^verbatim>\<open>FunctionCreate\<close>:
  the base fields, without id and timestamps.\<close>

record task_create =
  tc_title :: string
  tc_description :: "string option"
  tc_completed :: bool

record department_create =
  dc_name :: string
  dc_description :: "string option"

record role_create =
  rc_name :: string
  rc_description :: "string option"
  rc_department_id :: int

record function_create =
  fc_name :: string
  fc_description :: "string option"
  fc_role_id :: int

text \<open>\<^verbatim>\<open>DepartmentWithRoles(Department)\<close> and \<^verbatim>\<open>RoleWithFunctions(Role)\<close>: the flat
  shape extended by the list of children.\<close>

record department_with_roles = department_row +
  dw_roles :: "role_row list"

record role_with_functions = role_row +
  rw_functions :: "function_row list"

subsection \<open>The stored state\<close>

text \<open>A table is the list of its rows in the order of insertion.\<close>

record db =
  tasks :: "task_row list"
  departments :: "department_row list"
  roles :: "role_row list"
  "functions" :: "function_row list"

definition empty_db :: db where
  "empty_db = \<lparr>tasks = [], departments = [], roles = [], functions = []\<rparr>"

definition row_count :: "db \<Rightarrow> nat" where
  "row_count s = length (tasks s) + length (departments s) + length (roles s) + length (functions s)"

datatype error = HTTPException nat string | IntegrityError

subsection \<open>Query primitives\<close>

text \<open>\<^verbatim>\<open>.offset(skip)\<close> and \<^verbatim>\<open>.limit(limit)\<close>. \<^verbatim>\<open>skip\<close> and \<^verbatim>\<open>limit\<close> are Python
  ints. A negative offset skips nothing and a negative limit does not cap, as in SQLite;
  the properties below are stated for values that are not negative.\<close>

definition offset_q :: "int \<Rightarrow> 'a list \<Rightarrow> 'a list" where
  "offset_q skip xs = drop (nat skip) xs"

definition limit_q :: "int \<Rightarrow> 'a list \<Rightarrow> 'a list" where
  "limit_q limit xs = (if limit < 0 then xs else take (nat limit) xs)"

subsection \<open>crud.py: tasks\<close>

definition get_task :: "db \<Rightarrow> int \<Rightarrow> task_row option" where
  "get_task s task_id = find (\<lambda>t. t_id t = task_id) (tasks s)"

definition get_tasks :: "db \<Rightarrow> int \<Rightarrow> int \<Rightarrow> task_row list" where
  "get_tasks s skip limit = limit_q limit (offset_q skip (tasks s))"

text \<open>\<^verbatim>\<open>db.add; db.commit; db.refresh\<close>: one INSERT. The primary key rejects an id that is
  taken.\<close>

definition create_task :: "db \<Rightarrow> int \<Rightarrow> datetime \<Rightarrow> task_create \<Rightarrow> error + (db \<times> task_row)" where
  "create_task s nid now task =
     (if nid \<in> set (map t_id (tasks s)) then Inl IntegrityError
      else let db_task = \<lparr>t_id = nid, t_title = tc_title task, t_description = tc_description task,
                          t_completed = tc_completed task, t_created_at = now, t_updated_at = None\<rparr>
           in Inr (s\<lparr>tasks := tasks s @ [db_task]\<rparr>, db_task))"

text \<open>The \<^verbatim>\<open>setattr\<close> loop of \<^verbatim>\<open>update_task\<close> over \<^verbatim>\<open>task.dict().items()\<close>.\<close>

definition task_setattrs :: "task_row \<Rightarrow> task_create \<Rightarrow> task_row" where
  "task_setattrs db_task task =
     db_task\<lparr>t_title := tc_title task, t_description := tc_description task,
             t_completed := tc_completed task\<rparr>"

text \<open>\<^verbatim>\<open>db.commit()\<close> flushes the object. The unit of work compares every attribute that
  was set with the value that was loaded and emits an UPDATE only for a net change; the
  \<^verbatim>\<open>onupdate=func.now()\<close> of \<^verbatim>\<open>updated_at\<close> belongs to that UPDATE statement, so it is
  not applied when nothing changed.\<close>

definition update_task :: "db \<Rightarrow> datetime \<Rightarrow> int \<Rightarrow> task_create \<Rightarrow> db \<times> task_row option" where
  "update_task s now task_id task =
     (case get_task s task_id of
        None \<Rightarrow> (s, None)
      | Some db_task \<Rightarrow>
          let new_task = task_setattrs db_task task in
          if new_task = db_task then (s, Some db_task)
          else let new_task = new_task\<lparr>t_updated_at := Some now\<rparr>
               in (s\<lparr>tasks := map (\<lambda>t. if t_id t = task_id then new_task else t) (tasks s)\<rparr>,
                   Some new_task))"

definition delete_task :: "db \<Rightarrow> int \<Rightarrow> db \<times> task_row option" where
  "delete_task s task_id =
     (case get_task s task_id of
        None \<Rightarrow> (s, None)
      | Some db_task \<Rightarrow> (s\<lparr>tasks := filter (\<lambda>t. t_id t \<noteq> task_id) (tasks s)\<rparr>, Some db_task))"

subsection \<open>crud.py: departments\<close>

definition get_department :: "db \<Rightarrow> int \<Rightarrow> department_row option" where
  "get_department s department_id = find (\<lambda>d. d_id d = department_id) (departments s)"

definition get_departments :: "db \<Rightarrow> int \<Rightarrow> int \<Rightarrow> department_row list" where
  "get_departments s skip limit = limit_q limit (offset_q skip (departments s))"

definition create_department ::
  "db \<Rightarrow> int \<Rightarrow> datetime \<Rightarrow> department_create \<Rightarrow> error + (db \<times> department_row)" where
  "create_department s nid now department =
     (if nid \<in> set (map d_id (departments s)) then Inl IntegrityError
      else let db_department = \<lparr>d_id = nid, d_name = dc_name department,
                                d_description = dc_description department,
                                d_created_at = now, d_updated_at = None\<rparr>
           in Inr (s\<lparr>departments := departments s @ [db_department]\<rparr>, db_department))"

definition department_setattrs :: "department_row \<Rightarrow> department_create \<Rightarrow> department_row" where
  "department_setattrs db_department department =
     db_department\<lparr>d_name := dc_name department, d_description := dc_description department\<rparr>"

definition update_department ::
  "db \<Rightarrow> datetime \<Rightarrow> int \<Rightarrow> department_create \<Rightarrow> db \<times> department_row option" where
  "update_department s now department_id department =
     (case get_department s department_id of
        None \<Rightarrow> (s, None)
      | Some db_department \<Rightarrow>
          let new_department = department_setattrs db_department department in
          if new_department = db_department then (s, Some db_department)
          else let new_department = new_department\<lparr>d_updated_at := Some now\<rparr>
               in (s\<lparr>departments :=
                       map (\<lambda>d. if d_id d = department_id then new_department else d) (departments s)\<rparr>,
                   Some new_department))"

text \<open>\<^verbatim>\<open>Department.roles\<close> and \<^verbatim>\<open>Role.functions\<close>: the relationship loads the rows whose
  foreign key is the parent's id.\<close>

definition department_roles :: "db \<Rightarrow> int \<Rightarrow> role_row list" where
  "department_roles s department_id = filter (\<lambda>r. r_department_id r = department_id) (roles s)"

definition role_functions :: "db \<Rightarrow> int \<Rightarrow> function_row list" where
  "role_functions s role_id = filter (\<lambda>f. f_role_id f = role_id) (functions s)"

text \<open>The functions below the roles of one department.\<close>

definition department_functions :: "db \<Rightarrow> int \<Rightarrow> function_row list" where
  "department_functions s department_id =
     filter (\<lambda>f. f_role_id f \<in> set (map r_id (department_roles s department_id))) (functions s)"

text \<open>\<^verbatim>\<open>db.delete(db_department)\<close>: both relationships have
  \<^verbatim>\<open>cascade="all, delete-orphan"\<close>, so the session deletes the department's roles, the
  functions of each of these roles, and the department, in one commit.\<close>

definition delete_department :: "db \<Rightarrow> int \<Rightarrow> db \<times> department_row option" where
  "delete_department s department_id =
     (case get_department s department_id of
        None \<Rightarrow> (s, None)
      | Some db_department \<Rightarrow>
          (s\<lparr>departments := filter (\<lambda>d. d_id d \<noteq> department_id) (departments s),
             roles := filter (\<lambda>r. r_department_id r \<noteq> department_id) (roles s),
             functions := filter (\<lambda>f. f_role_id f \<notin> set (map r_id (department_roles s department_id)))
                            (functions s)\<rparr>,
           Some db_department))"

subsection \<open>crud.py: roles\<close>

text \<open>Modelled from the spec: the storage engine enforces the foreign keys that models.py
  declares (\<^verbatim>\<open>ForeignKey("departments.id")\<close>, \<^verbatim>\<open>ForeignKey("roles.id")\<close>); the module
  database.py, which configures the engine, is not part of the sources. Spec, section 7:
  "Storage/integrity error: e.g., a Role create referencing a nonexistent Department. Not
  locally recovered; propagates as a fatal/server error to the caller."\<close>

definition foreign_key_ok :: "int list \<Rightarrow> int \<Rightarrow> bool" where
  "foreign_key_ok parent_ids fk = (fk \<in> set parent_ids)"

definition get_role :: "db \<Rightarrow> int \<Rightarrow> role_row option" where
  "get_role s role_id = find (\<lambda>r. r_id r = role_id) (roles s)"

definition get_roles :: "db \<Rightarrow> int \<Rightarrow> int \<Rightarrow> role_row list" where
  "get_roles s skip limit = limit_q limit (offset_q skip (roles s))"

definition get_roles_by_department :: "db \<Rightarrow> int \<Rightarrow> int \<Rightarrow> int \<Rightarrow> role_row list" where
  "get_roles_by_department s department_id skip limit =
     limit_q limit (offset_q skip (filter (\<lambda>r. r_department_id r = department_id) (roles s)))"

definition create_role :: "db \<Rightarrow> int \<Rightarrow> datetime \<Rightarrow> role_create \<Rightarrow> error + (db \<times> role_row)" where
  "create_role s nid now role =
     (if nid \<in> set (map r_id (roles s)) then Inl IntegrityError
      else if \<not> foreign_key_ok (map d_id (departments s)) (rc_department_id role)
      then Inl IntegrityError
      else let db_role = \<lparr>r_id = nid, r_name = rc_name role, r_description = rc_description role,
                          r_department_id = rc_department_id role,
                          r_created_at = now, r_updated_at = None\<rparr>
           in Inr (s\<lparr>roles := roles s @ [db_role]\<rparr>, db_role))"

definition role_setattrs :: "role_row \<Rightarrow> role_create \<Rightarrow> role_row" where
  "role_setattrs db_role role =
     db_role\<lparr>r_name := rc_name role, r_description := rc_description role,
             r_department_id := rc_department_id role\<rparr>"

text \<open>The UPDATE carries the columns that changed; a changed \<^verbatim>\<open>department_id\<close> is checked
  against the departments.\<close>

definition update_role ::
  "db \<Rightarrow> datetime \<Rightarrow> int \<Rightarrow> role_create \<Rightarrow> error + (db \<times> role_row option)" where
  "update_role s now role_id role =
     (case get_role s role_id of
        None \<Rightarrow> Inr (s, None)
      | Some db_role \<Rightarrow>
          let new_role = role_setattrs db_role role in
          if new_role = db_role then Inr (s, Some db_role)
          else if r_department_id new_role \<noteq> r_department_id db_role
                  \<and> \<not> foreign_key_ok (map d_id (departments s)) (r_department_id new_role)
          then Inl IntegrityError
          else let new_role = new_role\<lparr>r_updated_at := Some now\<rparr>
               in Inr (s\<lparr>roles := map (\<lambda>r. if r_id r = role_id then new_role else r) (roles s)\<rparr>,
                       Some new_role))"

text \<open>\<^verbatim>\<open>db.delete(db_role)\<close> cascades to \<^verbatim>\<open>Role.functions\<close>.\<close>

definition delete_role :: "db \<Rightarrow> int \<Rightarrow> db \<times> role_row option" where
  "delete_role s role_id =
     (case get_role s role_id of
        None \<Rightarrow> (s, None)
      | Some db_role \<Rightarrow>
          (s\<lparr>roles := filter (\<lambda>r. r_id r \<noteq> role_id) (roles s),
             functions := filter (\<lambda>f. f_role_id f \<noteq> role_id) (functions s)\<rparr>,
           Some db_role))"

subsection \<open>crud.py: functions\<close>

definition get_function :: "db \<Rightarrow> int \<Rightarrow> function_row option" where
  "get_function s function_id = find (\<lambda>f. f_id f = function_id) (functions s)"

definition get_functions :: "db \<Rightarrow> int \<Rightarrow> int \<Rightarrow> function_row list" where
  "get_functions s skip limit = limit_q limit (offset_q skip (functions s))"

definition get_functions_by_role :: "db \<Rightarrow> int \<Rightarrow> int \<Rightarrow> int \<Rightarrow> function_row list" where
  "get_functions_by_role s role_id skip limit =
     limit_q limit (offset_q skip (filter (\<lambda>f. f_role_id f = role_id) (functions s)))"

definition create_function ::
  "db \<Rightarrow> int \<Rightarrow> datetime \<Rightarrow> function_create \<Rightarrow> error + (db \<times> function_row)" where
  "create_function s nid now function =
     (if nid \<in> set (map f_id (functions s)) then Inl IntegrityError
      else if \<not> foreign_key_ok (map r_id (roles s)) (fc_role_id function)
      then Inl IntegrityError
      else let db_function = \<lparr>f_id = nid, f_name = fc_name function,
                              f_description = fc_description function,
                              f_role_id = fc_role_id function,
                              f_created_at = now, f_updated_at = None\<rparr>
           in Inr (s\<lparr>functions := functions s @ [db_function]\<rparr>, db_function))"

definition function_setattrs :: "function_row \<Rightarrow> function_create \<Rightarrow> function_row" where
  "function_setattrs db_function function =
     db_function\<lparr>f_name := fc_name function, f_description := fc_description function,
                 f_role_id := fc_role_id function\<rparr>"

definition update_function ::
  "db \<Rightarrow> datetime \<Rightarrow> int \<Rightarrow> function_create \<Rightarrow> error + (db \<times> function_row option)" where
  "update_function s now function_id function =
     (case get_function s function_id of
        None \<Rightarrow> Inr (s, None)
      | Some db_function \<Rightarrow>
          let new_function = function_setattrs db_function function in
          if new_function = db_function then Inr (s, Some db_function)
          else if f_role_id new_function \<noteq> f_role_id db_function
                  \<and> \<not> foreign_key_ok (map r_id (roles s)) (f_role_id new_function)
          then Inl IntegrityError
          else let new_function = new_function\<lparr>f_updated_at := Some now\<rparr>
               in Inr (s\<lparr>functions :=
                           map (\<lambda>f. if f_id f = function_id then new_function else f) (functions s)\<rparr>,
                       Some new_function))"

definition delete_function :: "db \<Rightarrow> int \<Rightarrow> db \<times> function_row option" where
  "delete_function s function_id =
     (case get_function s function_id of
        None \<Rightarrow> (s, None)
      | Some db_function \<Rightarrow>
          (s\<lparr>functions := filter (\<lambda>f. f_id f \<noteq> function_id) (functions s)\<rparr>, Some db_function))"

subsection \<open>routers.py: the task handlers\<close>

text \<open>A handler returns the state after the request and either the response body or the
  exception that ends the request. An exception of the repository is not caught.\<close>

definition not_found :: "string \<Rightarrow> error" where
  "not_found detail = HTTPException 404 detail"

definition read_tasks :: "db \<Rightarrow> int \<Rightarrow> int \<Rightarrow> db \<times> (error + task_row list)" where
  "read_tasks s skip limit = (s, Inr (get_tasks s skip limit))"

definition routers_create_task ::
  "db \<Rightarrow> int \<Rightarrow> datetime \<Rightarrow> task_create \<Rightarrow> db \<times> (error + task_row)" where
  "routers_create_task s nid now task =
     (case create_task s nid now task of
        Inl e \<Rightarrow> (s, Inl e)
      | Inr (s', db_task) \<Rightarrow> (s', Inr db_task))"

definition read_task :: "db \<Rightarrow> int \<Rightarrow> db \<times> (error + task_row)" where
  "read_task s task_id =
     (case get_task s task_id of
        None \<Rightarrow> (s, Inl (not_found ''Task not found''))
      | Some db_task \<Rightarrow> (s, Inr db_task))"

definition routers_update_task ::
  "db \<Rightarrow> datetime \<Rightarrow> int \<Rightarrow> task_create \<Rightarrow> db \<times> (error + task_row)" where
  "routers_update_task s now task_id task =
     (case update_task s now task_id task of
        (s', None) \<Rightarrow> (s', Inl (not_found ''Task not found''))
      | (s', Some db_task) \<Rightarrow> (s', Inr db_task))"

definition routers_delete_task :: "db \<Rightarrow> int \<Rightarrow> db \<times> (error + task_row)" where
  "routers_delete_task s task_id =
     (case delete_task s task_id of
        (s', None) \<Rightarrow> (s', Inl (not_found ''Task not found''))
      | (s', Some db_task) \<Rightarrow> (s', Inr db_task))"

subsection \<open>org_routers.py: the organisation handlers\<close>

definition read_departments :: "db \<Rightarrow> int \<Rightarrow> int \<Rightarrow> db \<times> (error + department_row list)" where
  "read_departments s skip limit = (s, Inr (get_departments s skip limit))"

definition org_create_department ::
  "db \<Rightarrow> int \<Rightarrow> datetime \<Rightarrow> department_create \<Rightarrow> db \<times> (error + department_row)" where
  "org_create_department s nid now department =
     (case create_department s nid now department of
        Inl e \<Rightarrow> (s, Inl e)
      | Inr (s', db_department) \<Rightarrow> (s', Inr db_department))"

text \<open>\<^verbatim>\<open>response_model=schemas.DepartmentWithRoles\<close>: the response is read from the object
  with \<^verbatim>\<open>orm_mode\<close>, the field \<^verbatim>\<open>roles\<close> from the relationship \<^verbatim>\<open>Department.roles\<close>.\<close>

definition department_response :: "db \<Rightarrow> department_row \<Rightarrow> department_with_roles" where
  "department_response s db_department =
     \<lparr>d_id = d_id db_department, d_name = d_name db_department,
      d_description = d_description db_department, d_created_at = d_created_at db_department,
      d_updated_at = d_updated_at db_department,
      dw_roles = department_roles s (d_id db_department)\<rparr>"

definition read_department :: "db \<Rightarrow> int \<Rightarrow> db \<times> (error + department_with_roles)" where
  "read_department s department_id =
     (case get_department s department_id of
        None \<Rightarrow> (s, Inl (not_found ''Department not found''))
      | Some db_department \<Rightarrow> (s, Inr (department_response s db_department)))"

definition org_update_department ::
  "db \<Rightarrow> datetime \<Rightarrow> int \<Rightarrow> department_create \<Rightarrow> db \<times> (error + department_row)" where
  "org_update_department s now department_id department =
     (case update_department s now department_id department of
        (s', None) \<Rightarrow> (s', Inl (not_found ''Department not found''))
      | (s', Some db_department) \<Rightarrow> (s', Inr db_department))"

definition org_delete_department :: "db \<Rightarrow> int \<Rightarrow> db \<times> (error + department_row)" where
  "org_delete_department s department_id =
     (case delete_department s department_id of
        (s', None) \<Rightarrow> (s', Inl (not_found ''Department not found''))
      | (s', Some db_department) \<Rightarrow> (s', Inr db_department))"

definition read_roles :: "db \<Rightarrow> int \<Rightarrow> int \<Rightarrow> db \<times> (error + role_row list)" where
  "read_roles s skip limit = (s, Inr (get_roles s skip limit))"

definition read_roles_by_department ::
  "db \<Rightarrow> int \<Rightarrow> int \<Rightarrow> int \<Rightarrow> db \<times> (error + role_row list)" where
  "read_roles_by_department s department_id skip limit =
     (s, Inr (get_roles_by_department s department_id skip limit))"

definition org_create_role ::
  "db \<Rightarrow> int \<Rightarrow> datetime \<Rightarrow> role_create \<Rightarrow> db \<times> (error + role_row)" where
  "org_create_role s nid now role =
     (case create_role s nid now role of
        Inl e \<Rightarrow> (s, Inl e)
      | Inr (s', db_role) \<Rightarrow> (s', Inr db_role))"

definition role_response :: "db \<Rightarrow> role_row \<Rightarrow> role_with_functions" where
  "role_response s db_role =
     \<lparr>r_id = r_id db_role, r_name = r_name db_role, r_description = r_description db_role,
      r_department_id = r_department_id db_role, r_created_at = r_created_at db_role,
      r_updated_at = r_updated_at db_role,
      rw_functions = role_functions s (r_id db_role)\<rparr>"

definition read_role :: "db \<Rightarrow> int \<Rightarrow> db \<times> (error + role_with_functions)" where
  "read_role s role_id =
     (case get_role s role_id of
        None \<Rightarrow> (s, Inl (not_found ''Role not found''))
      | Some db_role \<Rightarrow> (s, Inr (role_response s db_role)))"

definition org_update_role ::
  "db \<Rightarrow> datetime \<Rightarrow> int \<Rightarrow> role_create \<Rightarrow> db \<times> (error + role_row)" where
  "org_update_role s now role_id role =
     (case update_role s now role_id role of
        Inl e \<Rightarrow> (s, Inl e)
      | Inr (s', None) \<Rightarrow> (s', Inl (not_found ''Role not found''))
      | Inr (s', Some db_role) \<Rightarrow> (s', Inr db_role))"

definition org_delete_role :: "db \<Rightarrow> int \<Rightarrow> db \<times> (error + role_row)" where
  "org_delete_role s role_id =
     (case delete_role s role_id of
        (s', None) \<Rightarrow> (s', Inl (not_found ''Role not found''))
      | (s', Some db_role) \<Rightarrow> (s', Inr db_role))"

definition read_functions :: "db \<Rightarrow> int \<Rightarrow> int \<Rightarrow> db \<times> (error + function_row list)" where
  "read_functions s skip limit = (s, Inr (get_functions s skip limit))"

definition read_functions_by_role ::
  "db \<Rightarrow> int \<Rightarrow> int \<Rightarrow> int \<Rightarrow> db \<times> (error + function_row list)" where
  "read_functions_by_role s role_id skip limit =
     (s, Inr (get_functions_by_role s role_id skip limit))"

definition org_create_function ::
  "db \<Rightarrow> int \<Rightarrow> datetime \<Rightarrow> function_create \<Rightarrow> db \<times> (error + function_row)" where
  "org_create_function s nid now function =
     (case create_function s nid now function of
        Inl e \<Rightarrow> (s, Inl e)
      | Inr (s', db_function) \<Rightarrow> (s', Inr db_function))"

definition read_function :: "db \<Rightarrow> int \<Rightarrow> db \<times> (error + function_row)" where
  "read_function s function_id =
     (case get_function s function_id of
        None \<Rightarrow> (s, Inl (not_found ''Function not found''))
      | Some db_function \<Rightarrow> (s, Inr db_function))"

definition org_update_function ::
  "db \<Rightarrow> datetime \<Rightarrow> int \<Rightarrow> function_create \<Rightarrow> db \<times> (error + function_row)" where
  "org_update_function s now function_id function =
     (case update_function s now function_id function of
        Inl e \<Rightarrow> (s, Inl e)
      | Inr (s', None) \<Rightarrow> (s', Inl (not_found ''Function not found''))
      | Inr (s', Some db_function) \<Rightarrow> (s', Inr db_function))"

definition org_delete_function :: "db \<Rightarrow> int \<Rightarrow> db \<times> (error + function_row)" where
  "org_delete_function s function_id =
     (case delete_function s function_id of
        (s', None) \<Rightarrow> (s', Inl (not_found ''Function not found''))
      | (s', Some db_function) \<Rightarrow> (s', Inr db_function))"

subsection \<open>Requests that write, and the states the API reaches\<close>

datatype request =
    CreateTask int datetime task_create
  | UpdateTask datetime int task_create
  | DeleteTask int
  | CreateDepartment int datetime department_create
  | UpdateDepartment datetime int department_create
  | DeleteDepartment int
  | CreateRole int datetime role_create
  | UpdateRole datetime int role_create
  | DeleteRole int
  | CreateFunction int datetime function_create
  | UpdateFunction datetime int function_create
  | DeleteFunction int

fun serve :: "db \<Rightarrow> request \<Rightarrow> db" where
  "serve s (CreateTask nid now p) = fst (routers_create_task s nid now p)"
| "serve s (UpdateTask now i p) = fst (routers_update_task s now i p)"
| "serve s (DeleteTask i) = fst (routers_delete_task s i)"
| "serve s (CreateDepartment nid now p) = fst (org_create_department s nid now p)"
| "serve s (UpdateDepartment now i p) = fst (org_update_department s now i p)"
| "serve s (DeleteDepartment i) = fst (org_delete_department s i)"
| "serve s (CreateRole nid now p) = fst (org_create_role s nid now p)"
| "serve s (UpdateRole now i p) = fst (org_update_role s now i p)"
| "serve s (DeleteRole i) = fst (org_delete_role s i)"
| "serve s (CreateFunction nid now p) = fst (org_create_function s nid now p)"
| "serve s (UpdateFunction now i p) = fst (org_update_function s now i p)"
| "serve s (DeleteFunction i) = fst (org_delete_function s i)"

text \<open>The state after a sequence of writing requests on the empty database (the tables that
  \<^verbatim>\<open>create_all\<close> makes in main.py).\<close>

definition serve_all :: "request list \<Rightarrow> db" where
  "serve_all reqs = foldl serve empty_db reqs"

text \<open>Primary keys are unique in every table; every foreign key points to a row.\<close>

definition ids_unique :: "db \<Rightarrow> bool" where
  "ids_unique s \<longleftrightarrow>
     distinct (map t_id (tasks s)) \<and> distinct (map d_id (departments s)) \<and>
     distinct (map r_id (roles s)) \<and> distinct (map f_id (functions s))"

definition references_valid :: "db \<Rightarrow> bool" where
  "references_valid s \<longleftrightarrow>
     list_all (\<lambda>r. r_department_id r \<in> d_id ` set (departments s)) (roles s) \<and>
     list_all (\<lambda>f. f_role_id f \<in> r_id ` set (roles s)) (functions s)"

text \<open>Rows of the example: the row with id 1 of each table as it is stored, as it is after
  an update at time 200 with the payloads above, and the row that a create with id 5 at
  time 200 makes.\<close>

definition stored_task :: task_row where
  "stored_task =
     \<lparr>t_id = 1, t_title = ''Buy milk'', t_description = None, t_completed = False,
      t_created_at = 109, t_updated_at = None\<rparr>"

definition changed_task :: task_row where
  "changed_task =
     \<lparr>t_id = 1, t_title = ''Buy milk'', t_description = None, t_completed = True,
      t_created_at = 109, t_updated_at = Some 200\<rparr>"

definition made_task :: task_row where
  "made_task =
     \<lparr>t_id = 5, t_title = ''Buy milk'', t_description = None, t_completed = True,
      t_created_at = 200, t_updated_at = None\<rparr>"

definition stored_department :: department_row where
  "stored_department =
     \<lparr>d_id = 1, d_name = ''Engineering'', d_description = None, d_created_at = 100,
      d_updated_at = None\<rparr>"

definition changed_department :: department_row where
  "changed_department =
     \<lparr>d_id = 1, d_name = ''Research'', d_description = None, d_created_at = 100,
      d_updated_at = Some 200\<rparr>"

definition made_department :: department_row where
  "made_department =
     \<lparr>d_id = 5, d_name = ''Research'', d_description = None, d_created_at = 200,
      d_updated_at = None\<rparr>"

definition stored_role :: role_row where
  "stored_role =
     \<lparr>r_id = 1, r_name = ''Backend'', r_description = None, r_department_id = 1,
      r_created_at = 101, r_updated_at = None\<rparr>"

definition changed_role :: role_row where
  "changed_role =
     \<lparr>r_id = 1, r_name = ''Support'', r_description = None, r_department_id = 2,
      r_created_at = 101, r_updated_at = Some 200\<rparr>"

definition made_role :: role_row where
  "made_role =
     \<lparr>r_id = 5, r_name = ''Support'', r_description = None, r_department_id = 2,
      r_created_at = 200, r_updated_at = None\<rparr>"

definition stored_function :: function_row where
  "stored_function =
     \<lparr>f_id = 1, f_name = ''Review'', f_description = None, f_role_id = 1,
      f_created_at = 103, f_updated_at = None\<rparr>"

definition changed_function :: function_row where
  "changed_function =
     \<lparr>f_id = 1, f_name = ''Invoice'', f_description = None, f_role_id = 3,
      f_created_at = 103, f_updated_at = Some 200\<rparr>"

definition made_function :: function_row where
  "made_function =
     \<lparr>f_id = 5, f_name = ''Invoice'', f_description = None, f_role_id = 3,
      f_created_at = 200, f_updated_at = None\<rparr>"

text \<open>What a request may do to a table, seen from the rows that were there: every position
  keeps its id (an update), or one row with a new id is added at the end (a create), or
  rows are removed and the others stay as they are (a delete).\<close>

definition rows_kept :: "('a \<Rightarrow> int) \<Rightarrow> 'a list \<Rightarrow> 'a list \<Rightarrow> bool" where
  "rows_kept key old new \<longleftrightarrow>
     map key new = map key old \<or>
     (\<exists>r. key r \<notin> key ` set old \<and> new = old @ [r]) \<or>
     (\<exists>P. new = filter P old)"

text \<open>The same for the order of a listing: the ids that were listed before are listed in
  the same relative order, and the ids that are new come after them.\<close>

definition order_kept :: "int list \<Rightarrow> int list \<Rightarrow> bool" where
  "order_kept old new \<longleftrightarrow>
     subseq (filter (\<lambda>i. i \<in> set old) new) old \<and>
     new = filter (\<lambda>i. i \<in> set old) new @ filter (\<lambda>i. i \<notin> set old) new"

subsection \<open>Updates that change a stored row\<close>

text \<open>A request changes the entity with id \<open>i\<close> when it is an update of that id whose payload
  differs from the base fields that are stored. A sequence of requests never changes the
  entity when none of its requests does, each in the state that the requests before it
  have produced.\<close>

fun changes_task :: "db \<Rightarrow> request \<Rightarrow> int \<Rightarrow> bool" where
  "changes_task s (UpdateTask now j p) i =
     (j = i \<and> (case get_task s j of None \<Rightarrow> False | Some r \<Rightarrow> task_setattrs r p \<noteq> r))"
| "changes_task s q i = False"

fun never_changes_task :: "db \<Rightarrow> request list \<Rightarrow> int \<Rightarrow> bool" where
  "never_changes_task s [] i = True"
| "never_changes_task s (q # qs) i =
     (\<not> changes_task s q i \<and> never_changes_task (serve s q) qs i)"

fun changes_department :: "db \<Rightarrow> request \<Rightarrow> int \<Rightarrow> bool" where
  "changes_department s (UpdateDepartment now j p) i =
     (j = i \<and> (case get_department s j of None \<Rightarrow> False | Some r \<Rightarrow> department_setattrs r p \<noteq> r))"
| "changes_department s q i = False"

fun never_changes_department :: "db \<Rightarrow> request list \<Rightarrow> int \<Rightarrow> bool" where
  "never_changes_department s [] i = True"
| "never_changes_department s (q # qs) i =
     (\<not> changes_department s q i \<and> never_changes_department (serve s q) qs i)"

fun changes_role :: "db \<Rightarrow> request \<Rightarrow> int \<Rightarrow> bool" where
  "changes_role s (UpdateRole now j p) i =
     (j = i \<and> (case get_role s j of None \<Rightarrow> False | Some r \<Rightarrow> role_setattrs r p \<noteq> r))"
| "changes_role s q i = False"

fun never_changes_role :: "db \<Rightarrow> request list \<Rightarrow> int \<Rightarrow> bool" where
  "never_changes_role s [] i = True"
| "never_changes_role s (q # qs) i =
     (\<not> changes_role s q i \<and> never_changes_role (serve s q) qs i)"

fun changes_function :: "db \<Rightarrow> request \<Rightarrow> int \<Rightarrow> bool" where
  "changes_function s (UpdateFunction now j p) i =
     (j = i \<and> (case get_function s j of None \<Rightarrow> False | Some r \<Rightarrow> function_setattrs r p \<noteq> r))"
| "changes_function s q i = False"

fun never_changes_function :: "db \<Rightarrow> request list \<Rightarrow> int \<Rightarrow> bool" where
  "never_changes_function s [] i = True"
| "never_changes_function s (q # qs) i =
     (\<not> changes_function s q i \<and> never_changes_function (serve s q) qs i)"

subsection \<open>An example organisation\<close>

definition buy_milk :: task_create where
  "buy_milk = \<lparr>tc_title = ''Buy milk'', tc_description = None, tc_completed = False\<rparr>"

definition done_milk :: task_create where
  "done_milk = \<lparr>tc_title = ''Buy milk'', tc_description = None, tc_completed = True\<rparr>"

definition research :: department_create where
  "research = \<lparr>dc_name = ''Research'', dc_description = None\<rparr>"

definition support :: role_create where
  "support = \<lparr>rc_name = ''Support'', rc_description = None, rc_department_id = 2\<rparr>"

definition invoice :: function_create where
  "invoice = \<lparr>fc_name = ''Invoice'', fc_description = None, fc_role_id = 3\<rparr>"

definition example_requests :: "request list" where
  "example_requests =
     [CreateDepartment 1 100 \<lparr>dc_name = ''Engineering'', dc_description = None\<rparr>,
      CreateRole 1 101 \<lparr>rc_name = ''Backend'', rc_description = None, rc_department_id = 1\<rparr>,
      CreateRole 2 102 \<lparr>rc_name = ''Frontend'', rc_description = Some ''UI'', rc_department_id = 1\<rparr>,
      CreateFunction 1 103 \<lparr>fc_name = ''Review'', fc_description = None, fc_role_id = 1\<rparr>,
      CreateFunction 2 104 \<lparr>fc_name = ''Deploy'', fc_description = None, fc_role_id = 1\<rparr>,
      CreateFunction 3 105 \<lparr>fc_name = ''Design'', fc_description = None, fc_role_id = 2\<rparr>,
      CreateDepartment 2 106 \<lparr>dc_name = ''Sales'', dc_description = None\<rparr>,
      CreateRole 3 107 \<lparr>rc_name = ''Account'', rc_description = None, rc_department_id = 2\<rparr>,
      CreateFunction 4 108 \<lparr>fc_name = ''Call'', fc_description = None, fc_role_id = 3\<rparr>,
      CreateTask 1 109 buy_milk]"

definition example_db :: db where
  "example_db = serve_all example_requests"

text \<open>The example after DELETE /departments/1.\<close>

definition sales_only :: db where
  "sales_only =
     \<lparr>tasks = [\<lparr>t_id = 1, t_title = ''Buy milk'', t_description = None, t_completed = False,
                 t_created_at = 109, t_updated_at = None\<rparr>],
      departments =
        [\<lparr>d_id = 2, d_name = ''Sales'', d_description = None, d_created_at = 106,
          d_updated_at = None\<rparr>],
      roles =
        [\<lparr>r_id = 3, r_name = ''Account'', r_description = None, r_department_id = 2,
          r_created_at = 107, r_updated_at = None\<rparr>],
      functions =
        [\<lparr>f_id = 4, f_name = ''Call'', f_description = None, f_role_id = 3,
          f_created_at = 108, f_updated_at = None\<rparr>]\<rparr>"

section \<open>Lemmas on tables\<close>

lemma find_replace:
  "key r' = i \<Longrightarrow>
   find (\<lambda>x. key x = i) (map (\<lambda>x. if key x = i then r' else x) xs) =
     (case find (\<lambda>x. key x = i) xs of None \<Rightarrow> None | Some _ \<Rightarrow> Some r')"
  by (induction xs) auto

lemma find_removed: "find (\<lambda>x. key x = i) (filter (\<lambda>x. key x \<noteq> i) xs) = None"
  by (induction xs) auto

lemma find_snoc_fresh:
  "i \<notin> key ` set xs \<Longrightarrow> key r = i \<Longrightarrow> find (\<lambda>x. key x = i) (xs @ [r]) = Some r"
  by (induction xs) auto

lemma find_key: "find (\<lambda>x. key x = i) xs = Some r \<Longrightarrow> key r = i \<and> r \<in> set xs"
  by (induction xs) (auto split: if_splits)

lemma find_absent: "i \<notin> key ` set xs \<Longrightarrow> find (\<lambda>x. key x = i) xs = None"
  by (induction xs) auto

lemma find_present: "i \<in> key ` set xs \<Longrightarrow> \<exists>r. find (\<lambda>x. key x = i) xs = Some r"
  by (induction xs) auto

lemma map_key_replace:
  "key r' = i \<Longrightarrow> map key (map (\<lambda>x. if key x = i then r' else x) xs) = map key xs"
  by (induction xs) auto

lemma distinct_key_filter: "distinct (map key xs) \<Longrightarrow> distinct (map key (filter P xs))"
  by (induction xs) auto

lemma length_remove_key:
  "distinct (map key xs) \<Longrightarrow> i \<in> key ` set xs \<Longrightarrow>
   Suc (length (filter (\<lambda>x. key x \<noteq> i) xs)) = length xs"
proof (induction xs)
  case Nil
  then show ?case by simp
next
  case (Cons x xs)
  show ?case
  proof (cases "key x = i")
    case True
    with Cons.prems have "i \<notin> key ` set xs" by auto
    then have "filter (\<lambda>x. key x \<noteq> i) xs = xs" by (auto simp: filter_id_conv)
    with True show ?thesis by simp
  next
    case False
    with Cons show ?thesis by auto
  qed
qed

lemma length_filter_split:
  "length (filter P xs) + length (filter (\<lambda>x. \<not> P x) xs) = length xs"
  by (induction xs) auto

lemma distinct_key_eq:
  "distinct (map key xs) \<Longrightarrow> x \<in> set xs \<Longrightarrow> y \<in> set xs \<Longrightarrow> key x = key y \<Longrightarrow> x = y"
  by (meson distinct_map inj_onD)

subsection \<open>Every request keeps primary keys unique\<close>

lemma ids_unique_serve: "ids_unique s \<Longrightarrow> ids_unique (serve s q)"
proof (cases q)
  case (CreateTask nid now p)
  assume "ids_unique s"
  then show ?thesis unfolding CreateTask
    by (auto simp: ids_unique_def routers_create_task_def create_task_def Let_def)
next
  case (UpdateTask now i p)
  assume "ids_unique s"
  then show ?thesis unfolding UpdateTask
    by (auto simp: ids_unique_def routers_update_task_def update_task_def get_task_def Let_def
        task_setattrs_def map_key_replace simp del: map_map dest!: find_key split: option.splits)
next
  case (DeleteTask i)
  assume "ids_unique s"
  then show ?thesis unfolding DeleteTask
    by (auto simp: ids_unique_def routers_delete_task_def delete_task_def distinct_key_filter
        split: option.splits)
next
  case (CreateDepartment nid now p)
  assume "ids_unique s"
  then show ?thesis unfolding CreateDepartment
    by (auto simp: ids_unique_def org_create_department_def create_department_def Let_def)
next
  case (UpdateDepartment now i p)
  assume "ids_unique s"
  then show ?thesis unfolding UpdateDepartment
    by (auto simp: ids_unique_def org_update_department_def update_department_def
        get_department_def Let_def department_setattrs_def map_key_replace
        simp del: map_map dest!: find_key split: option.splits)
next
  case (DeleteDepartment i)
  assume "ids_unique s"
  then show ?thesis unfolding DeleteDepartment
    by (auto simp: ids_unique_def org_delete_department_def delete_department_def
        distinct_key_filter split: option.splits)
next
  case (CreateRole nid now p)
  assume "ids_unique s"
  then show ?thesis unfolding CreateRole
    by (auto simp: ids_unique_def org_create_role_def create_role_def Let_def)
next
  case (UpdateRole now i p)
  assume "ids_unique s"
  then show ?thesis unfolding UpdateRole
    by (auto simp: ids_unique_def org_update_role_def update_role_def get_role_def Let_def
        role_setattrs_def map_key_replace simp del: map_map dest!: find_key split: option.splits)
next
  case (DeleteRole i)
  assume "ids_unique s"
  then show ?thesis unfolding DeleteRole
    by (auto simp: ids_unique_def org_delete_role_def delete_role_def distinct_key_filter
        split: option.splits)
next
  case (CreateFunction nid now p)
  assume "ids_unique s"
  then show ?thesis unfolding CreateFunction
    by (auto simp: ids_unique_def org_create_function_def create_function_def Let_def)
next
  case (UpdateFunction now i p)
  assume "ids_unique s"
  then show ?thesis unfolding UpdateFunction
    by (auto simp: ids_unique_def org_update_function_def update_function_def get_function_def
        Let_def function_setattrs_def map_key_replace simp del: map_map dest!: find_key split: option.splits)
next
  case (DeleteFunction i)
  assume "ids_unique s"
  then show ?thesis unfolding DeleteFunction
    by (auto simp: ids_unique_def org_delete_function_def delete_function_def
        distinct_key_filter split: option.splits)
qed

lemma ids_unique_foldl: "ids_unique s \<Longrightarrow> ids_unique (foldl serve s reqs)"
  by (induction reqs arbitrary: s) (simp_all add: ids_unique_serve)

lemma ids_unique_serve_all: "ids_unique (serve_all reqs)"
  unfolding serve_all_def by (rule ids_unique_foldl) (simp add: ids_unique_def empty_db_def)

subsection \<open>Every request keeps the foreign keys valid\<close>

lemma image_key_replace:
  "key r' = i \<Longrightarrow> key ` set (map (\<lambda>x. if key x = i then r' else x) xs) = key ` set xs"
  by (induction xs) auto

lemma references_valid_serve: "references_valid s \<Longrightarrow> references_valid (serve s q)"
proof (cases q)
  case (CreateTask nid now p)
  assume "references_valid s"
  then show ?thesis unfolding CreateTask
    by (auto simp: references_valid_def routers_create_task_def create_task_def Let_def)
next
  case (UpdateTask now i p)
  assume "references_valid s"
  then show ?thesis unfolding UpdateTask
    by (auto simp: references_valid_def routers_update_task_def update_task_def Let_def
        split: option.splits)
next
  case (DeleteTask i)
  assume "references_valid s"
  then show ?thesis unfolding DeleteTask
    by (auto simp: references_valid_def routers_delete_task_def delete_task_def
        split: option.splits)
next
  case (CreateDepartment nid now p)
  assume "references_valid s"
  then show ?thesis unfolding CreateDepartment
    by (auto simp: references_valid_def org_create_department_def create_department_def Let_def
        list_all_iff)
next
  case (UpdateDepartment now i p)
  assume a: "references_valid s"
  show ?thesis
  proof (cases "get_department s i")
    case None
    with a show ?thesis unfolding UpdateDepartment
      by (simp add: org_update_department_def update_department_def)
  next
    case (Some d)
    then have k: "d_id d = i" by (auto simp: get_department_def dest: find_key)
    define d' where "d' = (department_setattrs d p)\<lparr>d_updated_at := Some now\<rparr>"
    have "d_id d' = i" by (simp add: d'_def department_setattrs_def k)
    then have "d_id ` set (map (\<lambda>x. if d_id x = i then d' else x) (departments s))
          = d_id ` set (departments s)"
      by (rule image_key_replace)
    moreover have "fst (org_update_department s now i p) =
        (if department_setattrs d p = d then s
         else s\<lparr>departments := map (\<lambda>x. if d_id x = i then d' else x) (departments s)\<rparr>)"
      using Some by (simp add: org_update_department_def update_department_def Let_def d'_def)
    ultimately show ?thesis using a unfolding UpdateDepartment
      by (simp add: references_valid_def del: set_map)
  qed
next
  case (DeleteDepartment i)
  assume a: "references_valid s"
  show ?thesis
  proof (cases "get_department s i")
    case None
    with a show ?thesis unfolding DeleteDepartment
      by (simp add: org_delete_department_def delete_department_def)
  next
    case (Some d)
    from a have "list_all (\<lambda>r. r_department_id r \<in> d_id ` {x \<in> set (departments s). d_id x \<noteq> i})
                   (filter (\<lambda>r. r_department_id r \<noteq> i) (roles s))"
      by (auto simp: references_valid_def list_all_iff)
    moreover from a have
      "list_all (\<lambda>f. f_role_id f \<in> r_id ` {x \<in> set (roles s). r_department_id x \<noteq> i})
         (filter (\<lambda>f. f_role_id f \<notin> r_id ` {x \<in> set (roles s). r_department_id x = i})
            (functions s))"
      unfolding references_valid_def list_all_iff set_filter by blast
    ultimately show ?thesis using Some unfolding DeleteDepartment
      by (simp add: references_valid_def org_delete_department_def delete_department_def
          department_roles_def)
  qed
next
  case (CreateRole nid now p)
  assume "references_valid s"
  then show ?thesis unfolding CreateRole
    by (auto simp: references_valid_def org_create_role_def create_role_def Let_def
        list_all_iff foreign_key_ok_def)
next
  case (UpdateRole now i p)
  assume a: "references_valid s"
  show ?thesis
  proof (cases "get_role s i")
    case None
    with a show ?thesis unfolding UpdateRole
      by (simp add: org_update_role_def update_role_def)
  next
    case (Some r)
    then have k: "r_id r = i" and m: "r \<in> set (roles s)"
      by (auto simp: get_role_def dest: find_key)
    define r' where "r' = (role_setattrs r p)\<lparr>r_updated_at := Some now\<rparr>"
    have ids: "r_id ` set (map (\<lambda>x. if r_id x = i then r' else x) (roles s)) = r_id ` set (roles s)"
      by (rule image_key_replace) (simp add: role_setattrs_def k r'_def)
    show ?thesis
    proof (cases "role_setattrs r p = r")
      case True
      with a Some show ?thesis unfolding UpdateRole
        by (simp add: org_update_role_def update_role_def Let_def)
    next
      case changed: False
      show ?thesis
      proof (cases "r_department_id (role_setattrs r p) \<noteq> r_department_id r
                    \<and> \<not> foreign_key_ok (map d_id (departments s)) (r_department_id (role_setattrs r p))")
        case True
        with a Some changed show ?thesis unfolding UpdateRole
          by (simp add: org_update_role_def update_role_def Let_def)
      next
        case False
        with a m have "r_department_id r' \<in> d_id ` set (departments s)"
          by (auto simp: r'_def foreign_key_ok_def references_valid_def list_all_iff)
        with a have "list_all (\<lambda>x. r_department_id x \<in> d_id ` set (departments s))
                       (map (\<lambda>x. if r_id x = i then r' else x) (roles s))"
          by (auto simp: references_valid_def list_all_iff)
        moreover have "fst (org_update_role s now i p) =
             s\<lparr>roles := map (\<lambda>x. if r_id x = i then r' else x) (roles s)\<rparr>"
          using Some changed False
          by (auto simp: org_update_role_def update_role_def Let_def r'_def)
        ultimately show ?thesis using a ids unfolding UpdateRole
          by (simp add: references_valid_def del: set_map)
      qed
    qed
  qed
next
  case (DeleteRole i)
  assume a: "references_valid s"
  show ?thesis
  proof (cases "get_role s i")
    case None
    with a show ?thesis unfolding DeleteRole
      by (simp add: org_delete_role_def delete_role_def)
  next
    case (Some r)
    from a have "list_all (\<lambda>f. f_role_id f \<in> r_id ` {x \<in> set (roles s). r_id x \<noteq> i})
                   (filter (\<lambda>f. f_role_id f \<noteq> i) (functions s))"
      by (auto simp: references_valid_def list_all_iff)
    moreover from a have
      "list_all (\<lambda>x. r_department_id x \<in> d_id ` set (departments s))
         (filter (\<lambda>x. r_id x \<noteq> i) (roles s))"
      by (auto simp: references_valid_def list_all_iff)
    ultimately show ?thesis using Some unfolding DeleteRole
      by (simp add: references_valid_def org_delete_role_def delete_role_def)
  qed
next
  case (CreateFunction nid now p)
  assume "references_valid s"
  then show ?thesis unfolding CreateFunction
    by (auto simp: references_valid_def org_create_function_def create_function_def Let_def
        list_all_iff foreign_key_ok_def)
next
  case (UpdateFunction now i p)
  assume a: "references_valid s"
  show ?thesis
  proof (cases "get_function s i")
    case None
    with a show ?thesis unfolding UpdateFunction
      by (simp add: org_update_function_def update_function_def)
  next
    case (Some f)
    then have k: "f_id f = i" and m: "f \<in> set (functions s)"
      by (auto simp: get_function_def dest: find_key)
    define f' where "f' = (function_setattrs f p)\<lparr>f_updated_at := Some now\<rparr>"
    show ?thesis
    proof (cases "function_setattrs f p = f")
      case True
      with a Some show ?thesis unfolding UpdateFunction
        by (simp add: org_update_function_def update_function_def Let_def)
    next
      case changed: False
      show ?thesis
      proof (cases "f_role_id (function_setattrs f p) \<noteq> f_role_id f
                    \<and> \<not> foreign_key_ok (map r_id (roles s)) (f_role_id (function_setattrs f p))")
        case True
        with a Some changed show ?thesis unfolding UpdateFunction
          by (simp add: org_update_function_def update_function_def Let_def)
      next
        case False
        with a m have "f_role_id f' \<in> r_id ` set (roles s)"
          by (auto simp: f'_def foreign_key_ok_def references_valid_def list_all_iff)
        with a have "list_all (\<lambda>x. f_role_id x \<in> r_id ` set (roles s))
                       (map (\<lambda>x. if f_id x = i then f' else x) (functions s))"
          by (auto simp: references_valid_def list_all_iff)
        moreover have "fst (org_update_function s now i p) =
             s\<lparr>functions := map (\<lambda>x. if f_id x = i then f' else x) (functions s)\<rparr>"
          using Some changed False
          by (auto simp: org_update_function_def update_function_def Let_def f'_def)
        ultimately show ?thesis using a unfolding UpdateFunction
          by (simp add: references_valid_def del: map_map)
      qed
    qed
  qed
next
  case (DeleteFunction i)
  assume "references_valid s"
  then show ?thesis unfolding DeleteFunction
    by (auto simp: references_valid_def org_delete_function_def delete_function_def
        list_all_iff split: option.splits)
qed

lemma references_valid_foldl: "references_valid s \<Longrightarrow> references_valid (foldl serve s reqs)"
  by (induction reqs arbitrary: s) (simp_all add: references_valid_serve)

lemma references_valid_serve_all: "references_valid (serve_all reqs)"
  unfolding serve_all_def
  by (rule references_valid_foldl) (simp add: references_valid_def empty_db_def)

subsection \<open>What an update writes\<close>

lemma filter_key_replace:
  "key r' = i \<Longrightarrow>
   filter (\<lambda>x. key x \<noteq> i) (map (\<lambda>x. if key x = i then r' else x) xs) = filter (\<lambda>x. key x \<noteq> i) xs"
  by (induction xs) auto

lemma task_setattrs_same:
  "task_setattrs r p = r \<longleftrightarrow> t_title r = tc_title p \<and> t_description r = tc_description p \<and> t_completed r = tc_completed p"
  by (cases r) (auto simp: task_setattrs_def)

lemma task_setattrs_keeps:
  "t_id (task_setattrs r p) = t_id r" "t_created_at (task_setattrs r p) = t_created_at r"
  "t_updated_at (task_setattrs r p) = t_updated_at r"
  "t_title (task_setattrs r p) = tc_title p" "t_description (task_setattrs r p) = tc_description p" "t_completed (task_setattrs r p) = tc_completed p"
  by (simp_all add: task_setattrs_def)

lemma update_task_result:
  "get_task s i = Some r \<Longrightarrow>
   update_task s now i p =
     (if task_setattrs r p = r then (s, Some r)
      else (s\<lparr>tasks := map (\<lambda>x. if t_id x = i then (task_setattrs r p)\<lparr>t_updated_at := Some now\<rparr> else x) (tasks s)\<rparr>,
            Some ((task_setattrs r p)\<lparr>t_updated_at := Some now\<rparr>)))"
  by (simp add: update_task_def Let_def)

lemma get_task_key: "get_task s i = Some r \<Longrightarrow> t_id r = i"
  by (auto simp: get_task_def dest: find_key)

lemma update_task_frame:
  assumes "get_task s i = Some r" and "update_task s now i p = (s', Some r')"
  shows "t_id r' = t_id r" and "t_created_at r' = t_created_at r"
    and "t_title r' = tc_title p \<and> t_description r' = tc_description p \<and> t_completed r' = tc_completed p"
    and "t_updated_at r' = (if t_title r = tc_title p \<and> t_description r = tc_description p \<and> t_completed r = tc_completed p then t_updated_at r else Some now)"
    and "get_task s' i = Some r'"
    and "filter (\<lambda>x. t_id x \<noteq> i) (tasks s') = filter (\<lambda>x. t_id x \<noteq> i) (tasks s)"
    and "map t_id (tasks s') = map t_id (tasks s)"
    and "departments s' = departments s \<and> roles s' = roles s \<and> functions s' = functions s"
proof -
  note k = get_task_key [OF assms(1)]
  note u = assms(2) [unfolded update_task_result [OF assms(1)]]
  have found: "find (\<lambda>x. t_id x = i) (tasks s) = Some r"
    using assms(1) by (simp add: get_task_def)
  show "t_id r' = t_id r" and "t_created_at r' = t_created_at r"
    using u by (auto simp: task_setattrs_keeps split: if_splits)
  show "t_title r' = tc_title p \<and> t_description r' = tc_description p \<and> t_completed r' = tc_completed p"
    using u by (auto simp: task_setattrs_keeps task_setattrs_same split: if_splits)
  show "t_updated_at r' = (if t_title r = tc_title p \<and> t_description r = tc_description p \<and> t_completed r = tc_completed p then t_updated_at r else Some now)"
    using u by (auto simp: task_setattrs_same [symmetric] split: if_splits)
  show "get_task s' i = Some r'"
    using u found k
    by (auto simp: get_task_def find_replace task_setattrs_keeps split: if_splits)
  show "filter (\<lambda>x. t_id x \<noteq> i) (tasks s') = filter (\<lambda>x. t_id x \<noteq> i) (tasks s)"
    using u k by (auto simp: filter_key_replace task_setattrs_keeps split: if_splits)
  show "map t_id (tasks s') = map t_id (tasks s)"
    using u k by (auto simp: map_key_replace task_setattrs_keeps simp del: map_map split: if_splits)
  show "departments s' = departments s \<and> roles s' = roles s \<and> functions s' = functions s"
    using u by (auto split: if_splits)
qed

lemma department_setattrs_same:
  "department_setattrs r p = r \<longleftrightarrow> d_name r = dc_name p \<and> d_description r = dc_description p"
  by (cases r) (auto simp: department_setattrs_def)

lemma department_setattrs_keeps:
  "d_id (department_setattrs r p) = d_id r" "d_created_at (department_setattrs r p) = d_created_at r"
  "d_updated_at (department_setattrs r p) = d_updated_at r"
  "d_name (department_setattrs r p) = dc_name p" "d_description (department_setattrs r p) = dc_description p"
  by (simp_all add: department_setattrs_def)

lemma update_department_result:
  "get_department s i = Some r \<Longrightarrow>
   update_department s now i p =
     (if department_setattrs r p = r then (s, Some r)
      else (s\<lparr>departments := map (\<lambda>x. if d_id x = i then (department_setattrs r p)\<lparr>d_updated_at := Some now\<rparr> else x) (departments s)\<rparr>,
            Some ((department_setattrs r p)\<lparr>d_updated_at := Some now\<rparr>)))"
  by (simp add: update_department_def Let_def)

lemma get_department_key: "get_department s i = Some r \<Longrightarrow> d_id r = i"
  by (auto simp: get_department_def dest: find_key)

lemma update_department_frame:
  assumes "get_department s i = Some r" and "update_department s now i p = (s', Some r')"
  shows "d_id r' = d_id r" and "d_created_at r' = d_created_at r"
    and "d_name r' = dc_name p \<and> d_description r' = dc_description p"
    and "d_updated_at r' = (if d_name r = dc_name p \<and> d_description r = dc_description p then d_updated_at r else Some now)"
    and "get_department s' i = Some r'"
    and "filter (\<lambda>x. d_id x \<noteq> i) (departments s') = filter (\<lambda>x. d_id x \<noteq> i) (departments s)"
    and "map d_id (departments s') = map d_id (departments s)"
    and "tasks s' = tasks s \<and> roles s' = roles s \<and> functions s' = functions s"
proof -
  note k = get_department_key [OF assms(1)]
  note u = assms(2) [unfolded update_department_result [OF assms(1)]]
  have found: "find (\<lambda>x. d_id x = i) (departments s) = Some r"
    using assms(1) by (simp add: get_department_def)
  show "d_id r' = d_id r" and "d_created_at r' = d_created_at r"
    using u by (auto simp: department_setattrs_keeps split: if_splits)
  show "d_name r' = dc_name p \<and> d_description r' = dc_description p"
    using u by (auto simp: department_setattrs_keeps department_setattrs_same split: if_splits)
  show "d_updated_at r' = (if d_name r = dc_name p \<and> d_description r = dc_description p then d_updated_at r else Some now)"
    using u by (auto simp: department_setattrs_same [symmetric] split: if_splits)
  show "get_department s' i = Some r'"
    using u found k
    by (auto simp: get_department_def find_replace department_setattrs_keeps split: if_splits)
  show "filter (\<lambda>x. d_id x \<noteq> i) (departments s') = filter (\<lambda>x. d_id x \<noteq> i) (departments s)"
    using u k by (auto simp: filter_key_replace department_setattrs_keeps split: if_splits)
  show "map d_id (departments s') = map d_id (departments s)"
    using u k by (auto simp: map_key_replace department_setattrs_keeps simp del: map_map split: if_splits)
  show "tasks s' = tasks s \<and> roles s' = roles s \<and> functions s' = functions s"
    using u by (auto split: if_splits)
qed

lemma role_setattrs_same:
  "role_setattrs r p = r \<longleftrightarrow> r_name r = rc_name p \<and> r_description r = rc_description p \<and> r_department_id r = rc_department_id p"
  by (cases r) (auto simp: role_setattrs_def)

lemma role_setattrs_keeps:
  "r_id (role_setattrs r p) = r_id r" "r_created_at (role_setattrs r p) = r_created_at r"
  "r_updated_at (role_setattrs r p) = r_updated_at r"
  "r_name (role_setattrs r p) = rc_name p" "r_description (role_setattrs r p) = rc_description p" "r_department_id (role_setattrs r p) = rc_department_id p"
  by (simp_all add: role_setattrs_def)

lemma update_role_result:
  "get_role s i = Some r \<Longrightarrow>
   update_role s now i p =
     (if role_setattrs r p = r then Inr (s, Some r)
      else if r_department_id (role_setattrs r p) \<noteq> r_department_id r
              \<and> \<not> foreign_key_ok (map d_id (departments s)) (r_department_id (role_setattrs r p))
      then Inl IntegrityError
      else Inr (s\<lparr>roles := map (\<lambda>x. if r_id x = i then (role_setattrs r p)\<lparr>r_updated_at := Some now\<rparr> else x) (roles s)\<rparr>,
                Some ((role_setattrs r p)\<lparr>r_updated_at := Some now\<rparr>)))"
  by (simp add: update_role_def Let_def)

lemma get_role_key: "get_role s i = Some r \<Longrightarrow> r_id r = i"
  by (auto simp: get_role_def dest: find_key)

lemma update_role_frame:
  assumes "get_role s i = Some r" and "update_role s now i p = Inr (s', Some r')"
  shows "r_id r' = r_id r" and "r_created_at r' = r_created_at r"
    and "r_name r' = rc_name p \<and> r_description r' = rc_description p \<and> r_department_id r' = rc_department_id p"
    and "r_updated_at r' = (if r_name r = rc_name p \<and> r_description r = rc_description p \<and> r_department_id r = rc_department_id p then r_updated_at r else Some now)"
    and "get_role s' i = Some r'"
    and "filter (\<lambda>x. r_id x \<noteq> i) (roles s') = filter (\<lambda>x. r_id x \<noteq> i) (roles s)"
    and "map r_id (roles s') = map r_id (roles s)"
    and "tasks s' = tasks s \<and> departments s' = departments s \<and> functions s' = functions s"
proof -
  note k = get_role_key [OF assms(1)]
  note u = assms(2) [unfolded update_role_result [OF assms(1)]]
  have found: "find (\<lambda>x. r_id x = i) (roles s) = Some r"
    using assms(1) by (simp add: get_role_def)
  show "r_id r' = r_id r" and "r_created_at r' = r_created_at r"
    using u by (auto simp: role_setattrs_keeps split: if_splits)
  show "r_name r' = rc_name p \<and> r_description r' = rc_description p \<and> r_department_id r' = rc_department_id p"
    using u by (auto simp: role_setattrs_keeps role_setattrs_same split: if_splits)
  show "r_updated_at r' = (if r_name r = rc_name p \<and> r_description r = rc_description p \<and> r_department_id r = rc_department_id p then r_updated_at r else Some now)"
    using u by (auto simp: role_setattrs_same [symmetric] split: if_splits)
  show "get_role s' i = Some r'"
    using u found k
    by (auto simp: get_role_def find_replace role_setattrs_keeps split: if_splits)
  show "filter (\<lambda>x. r_id x \<noteq> i) (roles s') = filter (\<lambda>x. r_id x \<noteq> i) (roles s)"
    using u k by (auto simp: filter_key_replace role_setattrs_keeps split: if_splits)
  show "map r_id (roles s') = map r_id (roles s)"
    using u k by (auto simp: map_key_replace role_setattrs_keeps simp del: map_map split: if_splits)
  show "tasks s' = tasks s \<and> departments s' = departments s \<and> functions s' = functions s"
    using u by (auto split: if_splits)
qed

lemma function_setattrs_same:
  "function_setattrs r p = r \<longleftrightarrow> f_name r = fc_name p \<and> f_description r = fc_description p \<and> f_role_id r = fc_role_id p"
  by (cases r) (auto simp: function_setattrs_def)

lemma function_setattrs_keeps:
  "f_id (function_setattrs r p) = f_id r" "f_created_at (function_setattrs r p) = f_created_at r"
  "f_updated_at (function_setattrs r p) = f_updated_at r"
  "f_name (function_setattrs r p) = fc_name p" "f_description (function_setattrs r p) = fc_description p" "f_role_id (function_setattrs r p) = fc_role_id p"
  by (simp_all add: function_setattrs_def)

lemma update_function_result:
  "get_function s i = Some r \<Longrightarrow>
   update_function s now i p =
     (if function_setattrs r p = r then Inr (s, Some r)
      else if f_role_id (function_setattrs r p) \<noteq> f_role_id r
              \<and> \<not> foreign_key_ok (map r_id (roles s)) (f_role_id (function_setattrs r p))
      then Inl IntegrityError
      else Inr (s\<lparr>functions := map (\<lambda>x. if f_id x = i then (function_setattrs r p)\<lparr>f_updated_at := Some now\<rparr> else x) (functions s)\<rparr>,
                Some ((function_setattrs r p)\<lparr>f_updated_at := Some now\<rparr>)))"
  by (simp add: update_function_def Let_def)

lemma get_function_key: "get_function s i = Some r \<Longrightarrow> f_id r = i"
  by (auto simp: get_function_def dest: find_key)

lemma update_function_frame:
  assumes "get_function s i = Some r" and "update_function s now i p = Inr (s', Some r')"
  shows "f_id r' = f_id r" and "f_created_at r' = f_created_at r"
    and "f_name r' = fc_name p \<and> f_description r' = fc_description p \<and> f_role_id r' = fc_role_id p"
    and "f_updated_at r' = (if f_name r = fc_name p \<and> f_description r = fc_description p \<and> f_role_id r = fc_role_id p then f_updated_at r else Some now)"
    and "get_function s' i = Some r'"
    and "filter (\<lambda>x. f_id x \<noteq> i) (functions s') = filter (\<lambda>x. f_id x \<noteq> i) (functions s)"
    and "map f_id (functions s') = map f_id (functions s)"
    and "tasks s' = tasks s \<and> departments s' = departments s \<and> roles s' = roles s"
proof -
  note k = get_function_key [OF assms(1)]
  note u = assms(2) [unfolded update_function_result [OF assms(1)]]
  have found: "find (\<lambda>x. f_id x = i) (functions s) = Some r"
    using assms(1) by (simp add: get_function_def)
  show "f_id r' = f_id r" and "f_created_at r' = f_created_at r"
    using u by (auto simp: function_setattrs_keeps split: if_splits)
  show "f_name r' = fc_name p \<and> f_description r' = fc_description p \<and> f_role_id r' = fc_role_id p"
    using u by (auto simp: function_setattrs_keeps function_setattrs_same split: if_splits)
  show "f_updated_at r' = (if f_name r = fc_name p \<and> f_description r = fc_description p \<and> f_role_id r = fc_role_id p then f_updated_at r else Some now)"
    using u by (auto simp: function_setattrs_same [symmetric] split: if_splits)
  show "get_function s' i = Some r'"
    using u found k
    by (auto simp: get_function_def find_replace function_setattrs_keeps split: if_splits)
  show "filter (\<lambda>x. f_id x \<noteq> i) (functions s') = filter (\<lambda>x. f_id x \<noteq> i) (functions s)"
    using u k by (auto simp: filter_key_replace function_setattrs_keeps split: if_splits)
  show "map f_id (functions s') = map f_id (functions s)"
    using u k by (auto simp: map_key_replace function_setattrs_keeps simp del: map_map split: if_splits)
  show "tasks s' = tasks s \<and> departments s' = departments s \<and> roles s' = roles s"
    using u by (auto split: if_splits)
qed

subsection \<open>No request reorders a table\<close>

lemma rows_kept_same: "rows_kept key xs xs"
  by (simp add: rows_kept_def)

lemma rows_kept_replace:
  "key r' = i \<Longrightarrow> rows_kept key xs (map (\<lambda>x. if key x = i then r' else x) xs)"
  by (simp add: rows_kept_def map_key_replace del: map_map)

lemma rows_kept_snoc: "key r \<notin> key ` set xs \<Longrightarrow> rows_kept key xs (xs @ [r])"
  by (auto simp: rows_kept_def)

lemma rows_kept_filter: "rows_kept key xs (filter P xs)"
  by (auto simp: rows_kept_def)

lemma rows_kept_order:
  assumes "rows_kept key old new"
  shows "order_kept (map key old) (map key new)"
proof -
  from assms consider
      (same) "map key new = map key old"
    | (snoc) r where "key r \<notin> key ` set old" "new = old @ [r]"
    | (filt) P where "new = filter P old"
    by (auto simp: rows_kept_def)
  then show ?thesis
  proof cases
    case same
    then show ?thesis by (simp add: order_kept_def del: set_map)
  next
    case snoc
    then show ?thesis by (simp add: order_kept_def)
  next
    case filt
    have "\<forall>i \<in> set (map key (filter P old)). i \<in> set (map key old)" by auto
    then have "filter (\<lambda>i. i \<in> set (map key old)) (map key (filter P old)) = map key (filter P old)"
      and "filter (\<lambda>i. i \<notin> set (map key old)) (map key (filter P old)) = []"
      by (simp_all only: filter_True filter_False not_not ball_simps)
    moreover have "subseq (map key (filter P old)) (map key old)"
      by (simp add: subseq_map)
    ultimately show ?thesis unfolding filt order_kept_def by simp
  qed
qed

lemma rows_kept_serve:
  "rows_kept t_id (tasks s) (tasks (serve s q)) \<and>
   rows_kept d_id (departments s) (departments (serve s q)) \<and>
   rows_kept r_id (roles s) (roles (serve s q)) \<and>
   rows_kept f_id (functions s) (functions (serve s q))"
proof (cases q)
  case (CreateTask nid now p)
  show ?thesis
    unfolding CreateTask
    by (simp add: routers_create_task_def create_task_def Let_def rows_kept_same rows_kept_snoc)
next
  case (UpdateTask now i p)
  show ?thesis
  proof (cases "get_task s i")
    case None
    then show ?thesis unfolding UpdateTask
      by (simp add: routers_update_task_def update_task_def rows_kept_same)
  next
    case (Some r)
    show ?thesis unfolding UpdateTask
      by (simp add: routers_update_task_def update_task_result [OF Some] rows_kept_same rows_kept_replace
          task_setattrs_keeps get_task_key [OF Some])
  qed
next
  case (DeleteTask i)
  show ?thesis
    unfolding DeleteTask
    by (simp add: routers_delete_task_def delete_task_def rows_kept_same rows_kept_filter
        split: option.splits)
next
  case (CreateDepartment nid now p)
  show ?thesis
    unfolding CreateDepartment
    by (simp add: org_create_department_def create_department_def Let_def rows_kept_same
        rows_kept_snoc)
next
  case (UpdateDepartment now i p)
  show ?thesis
  proof (cases "get_department s i")
    case None
    then show ?thesis unfolding UpdateDepartment
      by (simp add: org_update_department_def update_department_def rows_kept_same)
  next
    case (Some r)
    show ?thesis unfolding UpdateDepartment
      by (simp add: org_update_department_def update_department_result [OF Some] rows_kept_same rows_kept_replace
          department_setattrs_keeps get_department_key [OF Some])
  qed
next
  case (DeleteDepartment i)
  show ?thesis
    unfolding DeleteDepartment
    by (simp add: org_delete_department_def delete_department_def rows_kept_same
        rows_kept_filter split: option.splits)
next
  case (CreateRole nid now p)
  show ?thesis
    unfolding CreateRole
    by (simp add: org_create_role_def create_role_def Let_def rows_kept_same rows_kept_snoc)
next
  case (UpdateRole now i p)
  show ?thesis
  proof (cases "get_role s i")
    case None
    then show ?thesis unfolding UpdateRole
      by (simp add: org_update_role_def update_role_def rows_kept_same)
  next
    case (Some r)
    show ?thesis unfolding UpdateRole
      by (simp add: org_update_role_def update_role_result [OF Some] rows_kept_same rows_kept_replace
          role_setattrs_keeps get_role_key [OF Some])
  qed
next
  case (DeleteRole i)
  show ?thesis
    unfolding DeleteRole
    by (simp add: org_delete_role_def delete_role_def rows_kept_same rows_kept_filter
        split: option.splits)
next
  case (CreateFunction nid now p)
  show ?thesis
    unfolding CreateFunction
    by (simp add: org_create_function_def create_function_def Let_def rows_kept_same
        rows_kept_snoc)
next
  case (UpdateFunction now i p)
  show ?thesis
  proof (cases "get_function s i")
    case None
    then show ?thesis unfolding UpdateFunction
      by (simp add: org_update_function_def update_function_def rows_kept_same)
  next
    case (Some r)
    show ?thesis unfolding UpdateFunction
      by (simp add: org_update_function_def update_function_result [OF Some] rows_kept_same rows_kept_replace
          function_setattrs_keeps get_function_key [OF Some])
  qed
next
  case (DeleteFunction i)
  show ?thesis
    unfolding DeleteFunction
    by (simp add: org_delete_function_def delete_function_def rows_kept_same rows_kept_filter
        split: option.splits)
qed

subsection \<open>What a request does to a stored row\<close>

lemma find_snoc_cases:
  "find (\<lambda>x. key x = i) (xs @ [r]) = Some r' \<Longrightarrow>
   find (\<lambda>x. key x = i) xs = Some r' \<or> (find (\<lambda>x. key x = i) xs = None \<and> r' = r)"
  by (induction xs) (auto split: if_splits)

lemma find_filter_distinct:
  assumes "distinct (map key xs)" and "find (\<lambda>x. key x = i) (filter P xs) = Some r'"
  shows "find (\<lambda>x. key x = i) xs = Some r'"
proof -
  from find_key [OF assms(2)] have k: "key r' = i" and m: "r' \<in> set xs" by simp_all
  then have "i \<in> key ` set xs" by auto
  then obtain y where y: "find (\<lambda>x. key x = i) xs = Some y" using find_present by fastforce
  from find_key [OF y] have "key y = i" and "y \<in> set xs" by simp_all
  with assms(1) m k have "y = r'" by (auto dest: distinct_key_eq)
  with y show ?thesis by simp
qed

lemma find_replace_other:
  "j \<noteq> i \<Longrightarrow> key n = j \<Longrightarrow>
   find (\<lambda>x. key x = i) (map (\<lambda>x. if key x = j then n else x) xs) = find (\<lambda>x. key x = i) xs"
  by (induction xs) auto

lemma get_task_serve:
  assumes u: "ids_unique s" and g: "get_task (serve s q) i = Some r'"
  shows "get_task s i = Some r' \<or> (get_task s i = None \<and> t_updated_at r' = None) \<or>
     (\<exists>now p r. q = UpdateTask now i p \<and> get_task s i = Some r \<and> task_setattrs r p \<noteq> r \<and>
        r' = (task_setattrs r p)\<lparr>t_updated_at := Some now\<rparr>)"
proof (cases q)
  case (CreateTask nid now p)
  have t: "tasks (serve s q) = tasks s \<or>
      (\<exists>r. t_updated_at r = None \<and> tasks (serve s q) = tasks s @ [r])"
    unfolding CreateTask by (simp add: routers_create_task_def create_task_def Let_def)
  from t g show ?thesis
    by (auto simp: get_task_def dest: find_snoc_cases)
next
  case (UpdateTask now j p)
  show ?thesis
  proof (cases "get_task s j")
    case None
    then have "tasks (serve s q) = tasks s"
      unfolding UpdateTask by (simp add: routers_update_task_def update_task_def)
    with g show ?thesis by (simp add: get_task_def)
  next
    case (Some r)
    note k = get_task_key [OF Some]
    let ?new = "(task_setattrs r p)\<lparr>t_updated_at := Some now\<rparr>"
    have kn: "t_id ?new = j" by (simp add: task_setattrs_keeps k)
    have t: "tasks (serve s q) = tasks s \<or>
        (task_setattrs r p \<noteq> r \<and>
         tasks (serve s q) = map (\<lambda>x. if t_id x = j then ?new else x) (tasks s))"
      unfolding UpdateTask by (simp add: routers_update_task_def update_task_result [OF Some])
    show ?thesis
    proof (cases "j = i")
      case False
      have "find (\<lambda>x. t_id x = i) (map (\<lambda>x. if t_id x = j then ?new else x) (tasks s))
          = find (\<lambda>x. t_id x = i) (tasks s)"
        by (rule find_replace_other [where key = t_id, OF False kn])
      with t g show ?thesis by (auto simp: get_task_def)
    next
      case True
      from t show ?thesis
      proof
        assume "tasks (serve s q) = tasks s"
        with g show ?thesis by (simp add: get_task_def)
      next
        assume c: "task_setattrs r p \<noteq> r \<and>
          tasks (serve s q) = map (\<lambda>x. if t_id x = j then ?new else x) (tasks s)"
        have "find (\<lambda>x. t_id x = j) (map (\<lambda>x. if t_id x = j then ?new else x) (tasks s))
            = Some ?new"
          using Some by (simp add: find_replace [where key = t_id, OF kn] get_task_def)
        with g c True have "r' = ?new" by (simp add: get_task_def)
        with c Some True UpdateTask show ?thesis by blast
      qed
    qed
  qed
next
  case (DeleteTask j)
  have t: "tasks (serve s q) = tasks s \<or> tasks (serve s q) = filter (\<lambda>x. t_id x \<noteq> j) (tasks s)"
    unfolding DeleteTask by (simp add: routers_delete_task_def delete_task_def split: option.splits)
  from u have "distinct (map t_id (tasks s))" by (simp add: ids_unique_def)
  from t g find_filter_distinct [where key = t_id, OF this, of i "\<lambda>x. t_id x \<noteq> j" r'] show ?thesis
    by (auto simp: get_task_def)
next
  case (CreateDepartment nid now p)
  have "tasks (serve s q) = tasks s"
    unfolding CreateDepartment by (simp add: org_create_department_def create_department_def Let_def split: option.splits)
  with g show ?thesis by (simp add: get_task_def)
next
  case (UpdateDepartment now j p)
  have "tasks (serve s q) = tasks s"
  proof (cases "get_department s j")
    case None
    then show ?thesis unfolding UpdateDepartment by (simp add: org_update_department_def update_department_def)
  next
    case (Some r)
    show ?thesis unfolding UpdateDepartment by (simp add: org_update_department_def update_department_result [OF Some])
  qed
  with g show ?thesis by (simp add: get_task_def)
next
  case (DeleteDepartment j)
  have "tasks (serve s q) = tasks s"
    unfolding DeleteDepartment by (simp add: org_delete_department_def delete_department_def Let_def split: option.splits)
  with g show ?thesis by (simp add: get_task_def)
next
  case (CreateRole nid now p)
  have "tasks (serve s q) = tasks s"
    unfolding CreateRole by (simp add: org_create_role_def create_role_def Let_def split: option.splits)
  with g show ?thesis by (simp add: get_task_def)
next
  case (UpdateRole now j p)
  have "tasks (serve s q) = tasks s"
  proof (cases "get_role s j")
    case None
    then show ?thesis unfolding UpdateRole by (simp add: org_update_role_def update_role_def)
  next
    case (Some r)
    show ?thesis unfolding UpdateRole by (simp add: org_update_role_def update_role_result [OF Some])
  qed
  with g show ?thesis by (simp add: get_task_def)
next
  case (DeleteRole j)
  have "tasks (serve s q) = tasks s"
    unfolding DeleteRole by (simp add: org_delete_role_def delete_role_def Let_def split: option.splits)
  with g show ?thesis by (simp add: get_task_def)
next
  case (CreateFunction nid now p)
  have "tasks (serve s q) = tasks s"
    unfolding CreateFunction by (simp add: org_create_function_def create_function_def Let_def split: option.splits)
  with g show ?thesis by (simp add: get_task_def)
next
  case (UpdateFunction now j p)
  have "tasks (serve s q) = tasks s"
  proof (cases "get_function s j")
    case None
    then show ?thesis unfolding UpdateFunction by (simp add: org_update_function_def update_function_def)
  next
    case (Some r)
    show ?thesis unfolding UpdateFunction by (simp add: org_update_function_def update_function_result [OF Some])
  qed
  with g show ?thesis by (simp add: get_task_def)
next
  case (DeleteFunction j)
  have "tasks (serve s q) = tasks s"
    unfolding DeleteFunction by (simp add: org_delete_function_def delete_function_def Let_def split: option.splits)
  with g show ?thesis by (simp add: get_task_def)
qed

lemma get_department_serve:
  assumes u: "ids_unique s" and g: "get_department (serve s q) i = Some r'"
  shows "get_department s i = Some r' \<or> (get_department s i = None \<and> d_updated_at r' = None) \<or>
     (\<exists>now p r. q = UpdateDepartment now i p \<and> get_department s i = Some r \<and> department_setattrs r p \<noteq> r \<and>
        r' = (department_setattrs r p)\<lparr>d_updated_at := Some now\<rparr>)"
proof (cases q)
  case (CreateTask nid now p)
  have "departments (serve s q) = departments s"
    unfolding CreateTask by (simp add: routers_create_task_def create_task_def Let_def split: option.splits)
  with g show ?thesis by (simp add: get_department_def)
next
  case (UpdateTask now j p)
  have "departments (serve s q) = departments s"
  proof (cases "get_task s j")
    case None
    then show ?thesis unfolding UpdateTask by (simp add: routers_update_task_def update_task_def)
  next
    case (Some r)
    show ?thesis unfolding UpdateTask by (simp add: routers_update_task_def update_task_result [OF Some])
  qed
  with g show ?thesis by (simp add: get_department_def)
next
  case (DeleteTask j)
  have "departments (serve s q) = departments s"
    unfolding DeleteTask by (simp add: routers_delete_task_def delete_task_def Let_def split: option.splits)
  with g show ?thesis by (simp add: get_department_def)
next
  case (CreateDepartment nid now p)
  have t: "departments (serve s q) = departments s \<or>
      (\<exists>r. d_updated_at r = None \<and> departments (serve s q) = departments s @ [r])"
    unfolding CreateDepartment by (simp add: org_create_department_def create_department_def Let_def)
  from t g show ?thesis
    by (auto simp: get_department_def dest: find_snoc_cases)
next
  case (UpdateDepartment now j p)
  show ?thesis
  proof (cases "get_department s j")
    case None
    then have "departments (serve s q) = departments s"
      unfolding UpdateDepartment by (simp add: org_update_department_def update_department_def)
    with g show ?thesis by (simp add: get_department_def)
  next
    case (Some r)
    note k = get_department_key [OF Some]
    let ?new = "(department_setattrs r p)\<lparr>d_updated_at := Some now\<rparr>"
    have kn: "d_id ?new = j" by (simp add: department_setattrs_keeps k)
    have t: "departments (serve s q) = departments s \<or>
        (department_setattrs r p \<noteq> r \<and>
         departments (serve s q) = map (\<lambda>x. if d_id x = j then ?new else x) (departments s))"
      unfolding UpdateDepartment by (simp add: org_update_department_def update_department_result [OF Some])
    show ?thesis
    proof (cases "j = i")
      case False
      have "find (\<lambda>x. d_id x = i) (map (\<lambda>x. if d_id x = j then ?new else x) (departments s))
          = find (\<lambda>x. d_id x = i) (departments s)"
        by (rule find_replace_other [where key = d_id, OF False kn])
      with t g show ?thesis by (auto simp: get_department_def)
    next
      case True
      from t show ?thesis
      proof
        assume "departments (serve s q) = departments s"
        with g show ?thesis by (simp add: get_department_def)
      next
        assume c: "department_setattrs r p \<noteq> r \<and>
          departments (serve s q) = map (\<lambda>x. if d_id x = j then ?new else x) (departments s)"
        have "find (\<lambda>x. d_id x = j) (map (\<lambda>x. if d_id x = j then ?new else x) (departments s))
            = Some ?new"
          using Some by (simp add: find_replace [where key = d_id, OF kn] get_department_def)
        with g c True have "r' = ?new" by (simp add: get_department_def)
        with c Some True UpdateDepartment show ?thesis by blast
      qed
    qed
  qed
next
  case (DeleteDepartment j)
  have t: "departments (serve s q) = departments s \<or> departments (serve s q) = filter (\<lambda>x. d_id x \<noteq> j) (departments s)"
    unfolding DeleteDepartment by (simp add: org_delete_department_def delete_department_def split: option.splits)
  from u have "distinct (map d_id (departments s))" by (simp add: ids_unique_def)
  from t g find_filter_distinct [where key = d_id, OF this, of i "\<lambda>x. d_id x \<noteq> j" r'] show ?thesis
    by (auto simp: get_department_def)
next
  case (CreateRole nid now p)
  have "departments (serve s q) = departments s"
    unfolding CreateRole by (simp add: org_create_role_def create_role_def Let_def split: option.splits)
  with g show ?thesis by (simp add: get_department_def)
next
  case (UpdateRole now j p)
  have "departments (serve s q) = departments s"
  proof (cases "get_role s j")
    case None
    then show ?thesis unfolding UpdateRole by (simp add: org_update_role_def update_role_def)
  next
    case (Some r)
    show ?thesis unfolding UpdateRole by (simp add: org_update_role_def update_role_result [OF Some])
  qed
  with g show ?thesis by (simp add: get_department_def)
next
  case (DeleteRole j)
  have "departments (serve s q) = departments s"
    unfolding DeleteRole by (simp add: org_delete_role_def delete_role_def Let_def split: option.splits)
  with g show ?thesis by (simp add: get_department_def)
next
  case (CreateFunction nid now p)
  have "departments (serve s q) = departments s"
    unfolding CreateFunction by (simp add: org_create_function_def create_function_def Let_def split: option.splits)
  with g show ?thesis by (simp add: get_department_def)
next
  case (UpdateFunction now j p)
  have "departments (serve s q) = departments s"
  proof (cases "get_function s j")
    case None
    then show ?thesis unfolding UpdateFunction by (simp add: org_update_function_def update_function_def)
  next
    case (Some r)
    show ?thesis unfolding UpdateFunction by (simp add: org_update_function_def update_function_result [OF Some])
  qed
  with g show ?thesis by (simp add: get_department_def)
next
  case (DeleteFunction j)
  have "departments (serve s q) = departments s"
    unfolding DeleteFunction by (simp add: org_delete_function_def delete_function_def Let_def split: option.splits)
  with g show ?thesis by (simp add: get_department_def)
qed

lemma get_role_serve:
  assumes u: "ids_unique s" and g: "get_role (serve s q) i = Some r'"
  shows "get_role s i = Some r' \<or> (get_role s i = None \<and> r_updated_at r' = None) \<or>
     (\<exists>now p r. q = UpdateRole now i p \<and> get_role s i = Some r \<and> role_setattrs r p \<noteq> r \<and>
        r' = (role_setattrs r p)\<lparr>r_updated_at := Some now\<rparr>)"
proof (cases q)
  case (CreateTask nid now p)
  have "roles (serve s q) = roles s"
    unfolding CreateTask by (simp add: routers_create_task_def create_task_def Let_def split: option.splits)
  with g show ?thesis by (simp add: get_role_def)
next
  case (UpdateTask now j p)
  have "roles (serve s q) = roles s"
  proof (cases "get_task s j")
    case None
    then show ?thesis unfolding UpdateTask by (simp add: routers_update_task_def update_task_def)
  next
    case (Some r)
    show ?thesis unfolding UpdateTask by (simp add: routers_update_task_def update_task_result [OF Some])
  qed
  with g show ?thesis by (simp add: get_role_def)
next
  case (DeleteTask j)
  have "roles (serve s q) = roles s"
    unfolding DeleteTask by (simp add: routers_delete_task_def delete_task_def Let_def split: option.splits)
  with g show ?thesis by (simp add: get_role_def)
next
  case (CreateDepartment nid now p)
  have "roles (serve s q) = roles s"
    unfolding CreateDepartment by (simp add: org_create_department_def create_department_def Let_def split: option.splits)
  with g show ?thesis by (simp add: get_role_def)
next
  case (UpdateDepartment now j p)
  have "roles (serve s q) = roles s"
  proof (cases "get_department s j")
    case None
    then show ?thesis unfolding UpdateDepartment by (simp add: org_update_department_def update_department_def)
  next
    case (Some r)
    show ?thesis unfolding UpdateDepartment by (simp add: org_update_department_def update_department_result [OF Some])
  qed
  with g show ?thesis by (simp add: get_role_def)
next
  case (DeleteDepartment j)
  have t: "roles (serve s q) = roles s \<or> roles (serve s q) = filter (\<lambda>x. r_department_id x \<noteq> j) (roles s)"
    unfolding DeleteDepartment by (simp add: org_delete_department_def delete_department_def split: option.splits)
  from u have "distinct (map r_id (roles s))" by (simp add: ids_unique_def)
  from t g find_filter_distinct [where key = r_id, OF this, of i "\<lambda>x. r_department_id x \<noteq> j" r'] show ?thesis
    by (auto simp: get_role_def)
next
  case (CreateRole nid now p)
  have t: "roles (serve s q) = roles s \<or>
      (\<exists>r. r_updated_at r = None \<and> roles (serve s q) = roles s @ [r])"
    unfolding CreateRole by (simp add: org_create_role_def create_role_def Let_def)
  from t g show ?thesis
    by (auto simp: get_role_def dest: find_snoc_cases)
next
  case (UpdateRole now j p)
  show ?thesis
  proof (cases "get_role s j")
    case None
    then have "roles (serve s q) = roles s"
      unfolding UpdateRole by (simp add: org_update_role_def update_role_def)
    with g show ?thesis by (simp add: get_role_def)
  next
    case (Some r)
    note k = get_role_key [OF Some]
    let ?new = "(role_setattrs r p)\<lparr>r_updated_at := Some now\<rparr>"
    have kn: "r_id ?new = j" by (simp add: role_setattrs_keeps k)
    have t: "roles (serve s q) = roles s \<or>
        (role_setattrs r p \<noteq> r \<and>
         roles (serve s q) = map (\<lambda>x. if r_id x = j then ?new else x) (roles s))"
      unfolding UpdateRole by (simp add: org_update_role_def update_role_result [OF Some])
    show ?thesis
    proof (cases "j = i")
      case False
      have "find (\<lambda>x. r_id x = i) (map (\<lambda>x. if r_id x = j then ?new else x) (roles s))
          = find (\<lambda>x. r_id x = i) (roles s)"
        by (rule find_replace_other [where key = r_id, OF False kn])
      with t g show ?thesis by (auto simp: get_role_def)
    next
      case True
      from t show ?thesis
      proof
        assume "roles (serve s q) = roles s"
        with g show ?thesis by (simp add: get_role_def)
      next
        assume c: "role_setattrs r p \<noteq> r \<and>
          roles (serve s q) = map (\<lambda>x. if r_id x = j then ?new else x) (roles s)"
        have "find (\<lambda>x. r_id x = j) (map (\<lambda>x. if r_id x = j then ?new else x) (roles s))
            = Some ?new"
          using Some by (simp add: find_replace [where key = r_id, OF kn] get_role_def)
        with g c True have "r' = ?new" by (simp add: get_role_def)
        with c Some True UpdateRole show ?thesis by blast
      qed
    qed
  qed
next
  case (DeleteRole j)
  have t: "roles (serve s q) = roles s \<or> roles (serve s q) = filter (\<lambda>x. r_id x \<noteq> j) (roles s)"
    unfolding DeleteRole by (simp add: org_delete_role_def delete_role_def split: option.splits)
  from u have "distinct (map r_id (roles s))" by (simp add: ids_unique_def)
  from t g find_filter_distinct [where key = r_id, OF this, of i "\<lambda>x. r_id x \<noteq> j" r'] show ?thesis
    by (auto simp: get_role_def)
next
  case (CreateFunction nid now p)
  have "roles (serve s q) = roles s"
    unfolding CreateFunction by (simp add: org_create_function_def create_function_def Let_def split: option.splits)
  with g show ?thesis by (simp add: get_role_def)
next
  case (UpdateFunction now j p)
  have "roles (serve s q) = roles s"
  proof (cases "get_function s j")
    case None
    then show ?thesis unfolding UpdateFunction by (simp add: org_update_function_def update_function_def)
  next
    case (Some r)
    show ?thesis unfolding UpdateFunction by (simp add: org_update_function_def update_function_result [OF Some])
  qed
  with g show ?thesis by (simp add: get_role_def)
next
  case (DeleteFunction j)
  have "roles (serve s q) = roles s"
    unfolding DeleteFunction by (simp add: org_delete_function_def delete_function_def Let_def split: option.splits)
  with g show ?thesis by (simp add: get_role_def)
qed

lemma get_function_serve:
  assumes u: "ids_unique s" and g: "get_function (serve s q) i = Some r'"
  shows "get_function s i = Some r' \<or> (get_function s i = None \<and> f_updated_at r' = None) \<or>
     (\<exists>now p r. q = UpdateFunction now i p \<and> get_function s i = Some r \<and> function_setattrs r p \<noteq> r \<and>
        r' = (function_setattrs r p)\<lparr>f_updated_at := Some now\<rparr>)"
proof (cases q)
  case (CreateTask nid now p)
  have "functions (serve s q) = functions s"
    unfolding CreateTask by (simp add: routers_create_task_def create_task_def Let_def split: option.splits)
  with g show ?thesis by (simp add: get_function_def)
next
  case (UpdateTask now j p)
  have "functions (serve s q) = functions s"
  proof (cases "get_task s j")
    case None
    then show ?thesis unfolding UpdateTask by (simp add: routers_update_task_def update_task_def)
  next
    case (Some r)
    show ?thesis unfolding UpdateTask by (simp add: routers_update_task_def update_task_result [OF Some])
  qed
  with g show ?thesis by (simp add: get_function_def)
next
  case (DeleteTask j)
  have "functions (serve s q) = functions s"
    unfolding DeleteTask by (simp add: routers_delete_task_def delete_task_def Let_def split: option.splits)
  with g show ?thesis by (simp add: get_function_def)
next
  case (CreateDepartment nid now p)
  have "functions (serve s q) = functions s"
    unfolding CreateDepartment by (simp add: org_create_department_def create_department_def Let_def split: option.splits)
  with g show ?thesis by (simp add: get_function_def)
next
  case (UpdateDepartment now j p)
  have "functions (serve s q) = functions s"
  proof (cases "get_department s j")
    case None
    then show ?thesis unfolding UpdateDepartment by (simp add: org_update_department_def update_department_def)
  next
    case (Some r)
    show ?thesis unfolding UpdateDepartment by (simp add: org_update_department_def update_department_result [OF Some])
  qed
  with g show ?thesis by (simp add: get_function_def)
next
  case (DeleteDepartment j)
  have t: "functions (serve s q) = functions s \<or> functions (serve s q) = filter (\<lambda>x. f_role_id x \<notin> set (map r_id (department_roles s j))) (functions s)"
    unfolding DeleteDepartment by (simp add: org_delete_department_def delete_department_def split: option.splits)
  from u have "distinct (map f_id (functions s))" by (simp add: ids_unique_def)
  from t g find_filter_distinct [where key = f_id, OF this, of i "\<lambda>x. f_role_id x \<notin> set (map r_id (department_roles s j))" r'] show ?thesis
    by (auto simp: get_function_def)
next
  case (CreateRole nid now p)
  have "functions (serve s q) = functions s"
    unfolding CreateRole by (simp add: org_create_role_def create_role_def Let_def split: option.splits)
  with g show ?thesis by (simp add: get_function_def)
next
  case (UpdateRole now j p)
  have "functions (serve s q) = functions s"
  proof (cases "get_role s j")
    case None
    then show ?thesis unfolding UpdateRole by (simp add: org_update_role_def update_role_def)
  next
    case (Some r)
    show ?thesis unfolding UpdateRole by (simp add: org_update_role_def update_role_result [OF Some])
  qed
  with g show ?thesis by (simp add: get_function_def)
next
  case (DeleteRole j)
  have t: "functions (serve s q) = functions s \<or> functions (serve s q) = filter (\<lambda>x. f_role_id x \<noteq> j) (functions s)"
    unfolding DeleteRole by (simp add: org_delete_role_def delete_role_def split: option.splits)
  from u have "distinct (map f_id (functions s))" by (simp add: ids_unique_def)
  from t g find_filter_distinct [where key = f_id, OF this, of i "\<lambda>x. f_role_id x \<noteq> j" r'] show ?thesis
    by (auto simp: get_function_def)
next
  case (CreateFunction nid now p)
  have t: "functions (serve s q) = functions s \<or>
      (\<exists>r. f_updated_at r = None \<and> functions (serve s q) = functions s @ [r])"
    unfolding CreateFunction by (simp add: org_create_function_def create_function_def Let_def)
  from t g show ?thesis
    by (auto simp: get_function_def dest: find_snoc_cases)
next
  case (UpdateFunction now j p)
  show ?thesis
  proof (cases "get_function s j")
    case None
    then have "functions (serve s q) = functions s"
      unfolding UpdateFunction by (simp add: org_update_function_def update_function_def)
    with g show ?thesis by (simp add: get_function_def)
  next
    case (Some r)
    note k = get_function_key [OF Some]
    let ?new = "(function_setattrs r p)\<lparr>f_updated_at := Some now\<rparr>"
    have kn: "f_id ?new = j" by (simp add: function_setattrs_keeps k)
    have t: "functions (serve s q) = functions s \<or>
        (function_setattrs r p \<noteq> r \<and>
         functions (serve s q) = map (\<lambda>x. if f_id x = j then ?new else x) (functions s))"
      unfolding UpdateFunction by (simp add: org_update_function_def update_function_result [OF Some])
    show ?thesis
    proof (cases "j = i")
      case False
      have "find (\<lambda>x. f_id x = i) (map (\<lambda>x. if f_id x = j then ?new else x) (functions s))
          = find (\<lambda>x. f_id x = i) (functions s)"
        by (rule find_replace_other [where key = f_id, OF False kn])
      with t g show ?thesis by (auto simp: get_function_def)
    next
      case True
      from t show ?thesis
      proof
        assume "functions (serve s q) = functions s"
        with g show ?thesis by (simp add: get_function_def)
      next
        assume c: "function_setattrs r p \<noteq> r \<and>
          functions (serve s q) = map (\<lambda>x. if f_id x = j then ?new else x) (functions s)"
        have "find (\<lambda>x. f_id x = j) (map (\<lambda>x. if f_id x = j then ?new else x) (functions s))
            = Some ?new"
          using Some by (simp add: find_replace [where key = f_id, OF kn] get_function_def)
        with g c True have "r' = ?new" by (simp add: get_function_def)
        with c Some True UpdateFunction show ?thesis by blast
      qed
    qed
  qed
next
  case (DeleteFunction j)
  have t: "functions (serve s q) = functions s \<or> functions (serve s q) = filter (\<lambda>x. f_id x \<noteq> j) (functions s)"
    unfolding DeleteFunction by (simp add: org_delete_function_def delete_function_def split: option.splits)
  from u have "distinct (map f_id (functions s))" by (simp add: ids_unique_def)
  from t g find_filter_distinct [where key = f_id, OF this, of i "\<lambda>x. f_id x \<noteq> j" r'] show ?thesis
    by (auto simp: get_function_def)
qed

subsection \<open>Rows that no update has changed\<close>

lemma task_kept:
  assumes "ids_unique s" and "get_task s i = Some old" and "get_task (serve s q) i = Some kept"
  shows "kept = old \<or>
     (\<exists>now p. q = UpdateTask now i p \<and> \<not> (t_title old = tc_title p \<and> t_description old = tc_description p \<and> t_completed old = tc_completed p) \<and>
        t_updated_at kept = Some now)"
  using get_task_serve [OF assms(1) assms(3)] assms(2)
  by (auto simp: task_setattrs_same)

lemma never_changes_task_null:
  "ids_unique s \<Longrightarrow> \<forall>r. get_task s i = Some r \<longrightarrow> t_updated_at r = None \<Longrightarrow>
   never_changes_task s reqs i \<Longrightarrow> get_task (foldl serve s reqs) i = Some r' \<Longrightarrow>
   t_updated_at r' = None"
proof (induction reqs arbitrary: s)
  case Nil
  then show ?case by simp
next
  case (Cons q qs)
  have inv: "\<forall>r. get_task (serve s q) i = Some r \<longrightarrow> t_updated_at r = None"
  proof (intro allI impI)
    fix r assume g: "get_task (serve s q) i = Some r"
    from get_task_serve [OF Cons.prems(1) g] Cons.prems(2) Cons.prems(3)
    show "t_updated_at r = None" by auto
  qed
  from Cons.prems(3) have quiet: "never_changes_task (serve s q) qs i" by simp
  from Cons.prems(4) have last: "get_task (foldl serve (serve s q) qs) i = Some r'" by simp
  show ?case
    by (rule Cons.IH [OF ids_unique_serve [OF Cons.prems(1)] inv quiet last])
qed

lemma department_kept:
  assumes "ids_unique s" and "get_department s i = Some old" and "get_department (serve s q) i = Some kept"
  shows "kept = old \<or>
     (\<exists>now p. q = UpdateDepartment now i p \<and> \<not> (d_name old = dc_name p \<and> d_description old = dc_description p) \<and>
        d_updated_at kept = Some now)"
  using get_department_serve [OF assms(1) assms(3)] assms(2)
  by (auto simp: department_setattrs_same)

lemma never_changes_department_null:
  "ids_unique s \<Longrightarrow> \<forall>r. get_department s i = Some r \<longrightarrow> d_updated_at r = None \<Longrightarrow>
   never_changes_department s reqs i \<Longrightarrow> get_department (foldl serve s reqs) i = Some r' \<Longrightarrow>
   d_updated_at r' = None"
proof (induction reqs arbitrary: s)
  case Nil
  then show ?case by simp
next
  case (Cons q qs)
  have inv: "\<forall>r. get_department (serve s q) i = Some r \<longrightarrow> d_updated_at r = None"
  proof (intro allI impI)
    fix r assume g: "get_department (serve s q) i = Some r"
    from get_department_serve [OF Cons.prems(1) g] Cons.prems(2) Cons.prems(3)
    show "d_updated_at r = None" by auto
  qed
  from Cons.prems(3) have quiet: "never_changes_department (serve s q) qs i" by simp
  from Cons.prems(4) have last: "get_department (foldl serve (serve s q) qs) i = Some r'" by simp
  show ?case
    by (rule Cons.IH [OF ids_unique_serve [OF Cons.prems(1)] inv quiet last])
qed

lemma role_kept:
  assumes "ids_unique s" and "get_role s i = Some old" and "get_role (serve s q) i = Some kept"
  shows "kept = old \<or>
     (\<exists>now p. q = UpdateRole now i p \<and> \<not> (r_name old = rc_name p \<and> r_description old = rc_description p \<and> r_department_id old = rc_department_id p) \<and>
        r_updated_at kept = Some now)"
  using get_role_serve [OF assms(1) assms(3)] assms(2)
  by (auto simp: role_setattrs_same)

lemma never_changes_role_null:
  "ids_unique s \<Longrightarrow> \<forall>r. get_role s i = Some r \<longrightarrow> r_updated_at r = None \<Longrightarrow>
   never_changes_role s reqs i \<Longrightarrow> get_role (foldl serve s reqs) i = Some r' \<Longrightarrow>
   r_updated_at r' = None"
proof (induction reqs arbitrary: s)
  case Nil
  then show ?case by simp
next
  case (Cons q qs)
  have inv: "\<forall>r. get_role (serve s q) i = Some r \<longrightarrow> r_updated_at r = None"
  proof (intro allI impI)
    fix r assume g: "get_role (serve s q) i = Some r"
    from get_role_serve [OF Cons.prems(1) g] Cons.prems(2) Cons.prems(3)
    show "r_updated_at r = None" by auto
  qed
  from Cons.prems(3) have quiet: "never_changes_role (serve s q) qs i" by simp
  from Cons.prems(4) have last: "get_role (foldl serve (serve s q) qs) i = Some r'" by simp
  show ?case
    by (rule Cons.IH [OF ids_unique_serve [OF Cons.prems(1)] inv quiet last])
qed

lemma function_kept:
  assumes "ids_unique s" and "get_function s i = Some old" and "get_function (serve s q) i = Some kept"
  shows "kept = old \<or>
     (\<exists>now p. q = UpdateFunction now i p \<and> \<not> (f_name old = fc_name p \<and> f_description old = fc_description p \<and> f_role_id old = fc_role_id p) \<and>
        f_updated_at kept = Some now)"
  using get_function_serve [OF assms(1) assms(3)] assms(2)
  by (auto simp: function_setattrs_same)

lemma never_changes_function_null:
  "ids_unique s \<Longrightarrow> \<forall>r. get_function s i = Some r \<longrightarrow> f_updated_at r = None \<Longrightarrow>
   never_changes_function s reqs i \<Longrightarrow> get_function (foldl serve s reqs) i = Some r' \<Longrightarrow>
   f_updated_at r' = None"
proof (induction reqs arbitrary: s)
  case Nil
  then show ?case by simp
next
  case (Cons q qs)
  have inv: "\<forall>r. get_function (serve s q) i = Some r \<longrightarrow> f_updated_at r = None"
  proof (intro allI impI)
    fix r assume g: "get_function (serve s q) i = Some r"
    from get_function_serve [OF Cons.prems(1) g] Cons.prems(2) Cons.prems(3)
    show "f_updated_at r = None" by auto
  qed
  from Cons.prems(3) have quiet: "never_changes_function (serve s q) qs i" by simp
  from Cons.prems(4) have last: "get_function (foldl serve (serve s q) qs) i = Some r'" by simp
  show ?case
    by (rule Cons.IH [OF ids_unique_serve [OF Cons.prems(1)] inv quiet last])
qed

subsection \<open>The example organisation, evaluated\<close>

lemma example_db_eq:
  "example_db =
     \<lparr>tasks = [\<lparr>t_id = 1, t_title = ''Buy milk'', t_description = None, t_completed = False,
                 t_created_at = 109, t_updated_at = None\<rparr>],
      departments =
        [\<lparr>d_id = 1, d_name = ''Engineering'', d_description = None, d_created_at = 100,
          d_updated_at = None\<rparr>,
         \<lparr>d_id = 2, d_name = ''Sales'', d_description = None, d_created_at = 106,
          d_updated_at = None\<rparr>],
      roles =
        [\<lparr>r_id = 1, r_name = ''Backend'', r_description = None, r_department_id = 1,
          r_created_at = 101, r_updated_at = None\<rparr>,
         \<lparr>r_id = 2, r_name = ''Frontend'', r_description = Some ''UI'', r_department_id = 1,
          r_created_at = 102, r_updated_at = None\<rparr>,
         \<lparr>r_id = 3, r_name = ''Account'', r_description = None, r_department_id = 2,
          r_created_at = 107, r_updated_at = None\<rparr>],
      functions =
        [\<lparr>f_id = 1, f_name = ''Review'', f_description = None, f_role_id = 1,
          f_created_at = 103, f_updated_at = None\<rparr>,
         \<lparr>f_id = 2, f_name = ''Deploy'', f_description = None, f_role_id = 1,
          f_created_at = 104, f_updated_at = None\<rparr>,
         \<lparr>f_id = 3, f_name = ''Design'', f_description = None, f_role_id = 2,
          f_created_at = 105, f_updated_at = None\<rparr>,
         \<lparr>f_id = 4, f_name = ''Call'', f_description = None, f_role_id = 3,
          f_created_at = 108, f_updated_at = None\<rparr>]\<rparr>"
  by (simp add: example_db_def example_requests_def serve_all_def empty_db_def buy_milk_def
      routers_create_task_def create_task_def org_create_department_def create_department_def
      org_create_role_def create_role_def org_create_function_def create_function_def
      foreign_key_ok_def Let_def)

subsection \<open>Updates and creates on the example organisation\<close>

lemma example_get_task:
  "get_task example_db 1 = Some stored_task"
  by (simp add: get_task_def example_db_eq stored_task_def)

lemma example_update_task:
  "update_task example_db 200 1 done_milk = (example_db\<lparr>tasks := changed_task # tl (tasks example_db)\<rparr>, Some changed_task)"
  unfolding update_task_result [OF example_get_task]
  by (simp add: task_setattrs_def done_milk_def foreign_key_ok_def example_db_eq
      stored_task_def changed_task_def)

lemma example_create_task:
  "create_task example_db 5 200 done_milk =
     Inr (example_db\<lparr>tasks := tasks example_db @ [made_task]\<rparr>,
          made_task)"
proof -
  have fresh: "5 \<notin> set (map t_id (tasks example_db))"
    by (simp add: example_db_eq)
  show ?thesis
    using fresh by (simp add: create_task_def Let_def) (simp add: done_milk_def made_task_def)
qed

lemma example_get_department:
  "get_department example_db 1 = Some stored_department"
  by (simp add: get_department_def example_db_eq stored_department_def)

lemma example_update_department:
  "update_department example_db 200 1 research = (example_db\<lparr>departments := changed_department # tl (departments example_db)\<rparr>, Some changed_department)"
  unfolding update_department_result [OF example_get_department]
  by (simp add: department_setattrs_def research_def foreign_key_ok_def example_db_eq
      stored_department_def changed_department_def)

lemma example_create_department:
  "create_department example_db 5 200 research =
     Inr (example_db\<lparr>departments := departments example_db @ [made_department]\<rparr>,
          made_department)"
proof -
  have fresh: "5 \<notin> set (map d_id (departments example_db))"
    by (simp add: example_db_eq)
  show ?thesis
    using fresh by (simp add: create_department_def Let_def) (simp add: research_def made_department_def)
qed

lemma example_get_role:
  "get_role example_db 1 = Some stored_role"
  by (simp add: get_role_def example_db_eq stored_role_def)

lemma example_update_role:
  "update_role example_db 200 1 support = Inr (example_db\<lparr>roles := changed_role # tl (roles example_db)\<rparr>, Some changed_role)"
  unfolding update_role_result [OF example_get_role]
  by (simp add: role_setattrs_def support_def foreign_key_ok_def example_db_eq
      stored_role_def changed_role_def)

lemma example_create_role:
  "create_role example_db 5 200 support =
     Inr (example_db\<lparr>roles := roles example_db @ [made_role]\<rparr>,
          made_role)"
proof -
  have fresh: "5 \<notin> set (map r_id (roles example_db))"
    by (simp add: example_db_eq)
  have fk: "foreign_key_ok (map d_id (departments example_db)) (rc_department_id support)"
    by (simp add: foreign_key_ok_def support_def example_db_eq)
  show ?thesis
    using fresh fk by (simp add: create_role_def Let_def) (simp add: support_def made_role_def)
qed

lemma example_get_function:
  "get_function example_db 1 = Some stored_function"
  by (simp add: get_function_def example_db_eq stored_function_def)

lemma example_update_function:
  "update_function example_db 200 1 invoice = Inr (example_db\<lparr>functions := changed_function # tl (functions example_db)\<rparr>, Some changed_function)"
  unfolding update_function_result [OF example_get_function]
  by (simp add: function_setattrs_def invoice_def foreign_key_ok_def example_db_eq
      stored_function_def changed_function_def)

lemma example_create_function:
  "create_function example_db 5 200 invoice =
     Inr (example_db\<lparr>functions := functions example_db @ [made_function]\<rparr>,
          made_function)"
proof -
  have fresh: "5 \<notin> set (map f_id (functions example_db))"
    by (simp add: example_db_eq)
  have fk: "foreign_key_ok (map r_id (roles example_db)) (fc_role_id invoice)"
    by (simp add: foreign_key_ok_def invoice_def example_db_eq)
  show ?thesis
    using fresh fk by (simp add: create_function_def Let_def) (simp add: invoice_def made_function_def)
qed

subsection \<open>Deleting a department of the example\<close>

lemma example_department_roles:
  "department_roles example_db 1 =
     [\<lparr>r_id = 1, r_name = ''Backend'', r_description = None, r_department_id = 1,
       r_created_at = 101, r_updated_at = None\<rparr>,
      \<lparr>r_id = 2, r_name = ''Frontend'', r_description = Some ''UI'', r_department_id = 1,
       r_created_at = 102, r_updated_at = None\<rparr>]"
  by (simp add: department_roles_def example_db_eq)

lemma example_delete_department:
  "delete_department example_db 1 =
     (sales_only,
      Some stored_department)"
  unfolding delete_department_def example_get_department example_department_roles
  by (simp add: example_db_eq sales_only_def)

lemma example_department_functions:
  "department_functions example_db 1 =
     [\<lparr>f_id = 1, f_name = ''Review'', f_description = None, f_role_id = 1,
       f_created_at = 103, f_updated_at = None\<rparr>,
      \<lparr>f_id = 2, f_name = ''Deploy'', f_description = None, f_role_id = 1,
       f_created_at = 104, f_updated_at = None\<rparr>,
      \<lparr>f_id = 3, f_name = ''Design'', f_description = None, f_role_id = 2,
       f_created_at = 105, f_updated_at = None\<rparr>]"
  unfolding department_functions_def example_department_roles
  by (simp add: example_db_eq)

lemma example_ids_unique: "ids_unique example_db"
  unfolding example_db_def by (rule ids_unique_serve_all)

subsection \<open>Requests on the example organisation\<close>

lemma example_serve_update:
  "serve example_db (UpdateTask 200 1 done_milk) =
     example_db\<lparr>tasks := changed_task # tl (tasks example_db)\<rparr>"
  by (simp add: routers_update_task_def example_update_task)

lemma example_serve_same_fields:
  "serve example_db (UpdateTask 200 1 buy_milk) = example_db"
  by (simp add: routers_update_task_def update_task_result [OF example_get_task]
      task_setattrs_def buy_milk_def stored_task_def)

lemma example_never_changes:
  "never_changes_task example_db [UpdateTask 200 1 buy_milk] 1"
  "never_changes_department example_db [UpdateTask 200 1 buy_milk] 1"
  "never_changes_role example_db [UpdateTask 200 1 buy_milk] 1"
  "never_changes_function example_db [UpdateTask 200 1 buy_milk] 1"
  by (simp_all add: example_get_task task_setattrs_def buy_milk_def stored_task_def)

lemma example_get_after_update:
  "get_task (example_db\<lparr>tasks := changed_task # tl (tasks example_db)\<rparr>) 1 = Some changed_task"
  "get_department (example_db\<lparr>tasks := changed_task # tl (tasks example_db)\<rparr>) 1 =
     Some stored_department"
  "get_role (example_db\<lparr>tasks := changed_task # tl (tasks example_db)\<rparr>) 1 = Some stored_role"
  "get_function (example_db\<lparr>tasks := changed_task # tl (tasks example_db)\<rparr>) 1 =
     Some stored_function"
  using example_get_department example_get_role example_get_function
  by (simp_all add: get_task_def get_department_def get_role_def get_function_def
      changed_task_def)

lemma example_get_after_serve:
  "get_task (serve example_db (UpdateTask 200 1 done_milk)) 1 = Some changed_task"
  "get_department (serve example_db (UpdateTask 200 1 done_milk)) 1 = Some stored_department"
  "get_role (serve example_db (UpdateTask 200 1 done_milk)) 1 = Some stored_role"
  "get_function (serve example_db (UpdateTask 200 1 done_milk)) 1 = Some stored_function"
  unfolding example_serve_update by (rule example_get_after_update)+

lemma example_get_after_same_fields:
  "get_task (foldl serve example_db [UpdateTask 200 1 buy_milk]) 1 = Some stored_task"
  "get_department (foldl serve example_db [UpdateTask 200 1 buy_milk]) 1 =
     Some stored_department"
  "get_role (foldl serve example_db [UpdateTask 200 1 buy_milk]) 1 = Some stored_role"
  "get_function (foldl serve example_db [UpdateTask 200 1 buy_milk]) 1 = Some stored_function"
  by (simp_all add: example_serve_same_fields example_get_task example_get_department
      example_get_role example_get_function del: serve.simps)

lemma example_get_made_task:
  "get_task (example_db\<lparr>tasks := tasks example_db @ [made_task]\<rparr>) 5 = Some made_task"
proof -
  have "5 \<notin> t_id ` set (tasks example_db)" by (simp add: example_db_eq)
  then show ?thesis
    by (simp add: get_task_def find_snoc_fresh [where key = t_id] made_task_def)
qed

lemma example_get_changed_task:
  "get_task (example_db\<lparr>tasks := changed_task # tl (tasks example_db)\<rparr>) 1 = Some changed_task"
  by (simp add: get_task_def changed_task_def)

lemma example_get_made_department:
  "get_department (example_db\<lparr>departments := departments example_db @ [made_department]\<rparr>) 5 = Some made_department"
proof -
  have "5 \<notin> d_id ` set (departments example_db)" by (simp add: example_db_eq)
  then show ?thesis
    by (simp add: get_department_def find_snoc_fresh [where key = d_id] made_department_def)
qed

lemma example_get_changed_department:
  "get_department (example_db\<lparr>departments := changed_department # tl (departments example_db)\<rparr>) 1 = Some changed_department"
  by (simp add: get_department_def changed_department_def)

lemma example_get_made_role:
  "get_role (example_db\<lparr>roles := roles example_db @ [made_role]\<rparr>) 5 = Some made_role"
proof -
  have "5 \<notin> r_id ` set (roles example_db)" by (simp add: example_db_eq)
  then show ?thesis
    by (simp add: get_role_def find_snoc_fresh [where key = r_id] made_role_def)
qed

lemma example_get_changed_role:
  "get_role (example_db\<lparr>roles := changed_role # tl (roles example_db)\<rparr>) 1 = Some changed_role"
  by (simp add: get_role_def changed_role_def)

lemma example_get_made_function:
  "get_function (example_db\<lparr>functions := functions example_db @ [made_function]\<rparr>) 5 = Some made_function"
proof -
  have "5 \<notin> f_id ` set (functions example_db)" by (simp add: example_db_eq)
  then show ?thesis
    by (simp add: get_function_def find_snoc_fresh [where key = f_id] made_function_def)
qed

lemma example_get_changed_function:
  "get_function (example_db\<lparr>functions := changed_function # tl (functions example_db)\<rparr>) 1 = Some changed_function"
  by (simp add: get_function_def changed_function_def)

section \<open>Properties of the repository and the handlers\<close>

text \<open>
  C2. For every entity type and every id with no matching row, update returns not-found
  (\<open>None\<close>) and the state it returns is the state it was given: no row is created,
  modified or deleted. The handler answers with HTTP 404 and leaves the state unchanged.
\<close>

theorem update_absent_unchanged:
  "(i \<notin> t_id ` set (tasks s) \<longrightarrow>
      update_task s now i pt = (s, None) \<and>
      routers_update_task s now i pt = (s, Inl (HTTPException 404 ''Task not found''))) \<and>
   (i \<notin> d_id ` set (departments s) \<longrightarrow>
      update_department s now i pd = (s, None) \<and>
      org_update_department s now i pd = (s, Inl (HTTPException 404 ''Department not found''))) \<and>
   (i \<notin> r_id ` set (roles s) \<longrightarrow>
      update_role s now i pr = Inr (s, None) \<and>
      org_update_role s now i pr = (s, Inl (HTTPException 404 ''Role not found''))) \<and>
   (i \<notin> f_id ` set (functions s) \<longrightarrow>
      update_function s now i pf = Inr (s, None) \<and>
      org_update_function s now i pf = (s, Inl (HTTPException 404 ''Function not found'')))"
  by (simp add: update_task_def routers_update_task_def get_task_def
      update_department_def org_update_department_def get_department_def
      update_role_def org_update_role_def get_role_def
      update_function_def org_update_function_def get_function_def
      not_found_def find_absent)

theorem update_absent_unchanged_witness:
  "(7 \<notin> t_id ` set (tasks example_db) \<and> 7 \<notin> d_id ` set (departments example_db) \<and>
    7 \<notin> r_id ` set (roles example_db) \<and> 7 \<notin> f_id ` set (functions example_db)) \<and>
   update_task example_db 200 7 buy_milk = (example_db, None) \<and>
   routers_update_task example_db 200 7 buy_milk =
     (example_db, Inl (HTTPException 404 ''Task not found'')) \<and>
   update_department example_db 200 7 research = (example_db, None) \<and>
   org_update_department example_db 200 7 research =
     (example_db, Inl (HTTPException 404 ''Department not found'')) \<and>
   update_role example_db 200 7 support = Inr (example_db, None) \<and>
   org_update_role example_db 200 7 support =
     (example_db, Inl (HTTPException 404 ''Role not found'')) \<and>
   update_function example_db 200 7 invoice = Inr (example_db, None) \<and>
   org_update_function example_db 200 7 invoice =
     (example_db, Inl (HTTPException 404 ''Function not found''))"
proof -
  have absent:
    "7 \<notin> t_id ` set (tasks example_db) \<and> 7 \<notin> d_id ` set (departments example_db) \<and>
     7 \<notin> r_id ` set (roles example_db) \<and> 7 \<notin> f_id ` set (functions example_db)"
    by (simp add: example_db_eq)
  with update_absent_unchanged [of 7 example_db 200 buy_milk research support invoice]
  show ?thesis by blast
qed

text \<open>
  C3. Create-then-get round trip, for each of the four entity types: when the id that the
  storage assigns is fresh (and, for a role or a function, the parent exists), create
  succeeds and returns a row with that id, the payload's base fields, \<open>created_at\<close> set
  and \<open>updated_at\<close> null; get on that id in the resulting state returns exactly the row
  that create returned, and so does the GET handler.
\<close>

theorem create_then_get:
  "(nid \<notin> t_id ` set (tasks s) \<longrightarrow>
      (\<exists>s' row. create_task s nid now pt = Inr (s', row) \<and>
         row = \<lparr>t_id = nid, t_title = tc_title pt, t_description = tc_description pt,
                t_completed = tc_completed pt, t_created_at = now, t_updated_at = None\<rparr> \<and>
         get_task s' (t_id row) = Some row \<and> read_task s' (t_id row) = (s', Inr row))) \<and>
   (nid \<notin> d_id ` set (departments s) \<longrightarrow>
      (\<exists>s' row. create_department s nid now pd = Inr (s', row) \<and>
         row = \<lparr>d_id = nid, d_name = dc_name pd, d_description = dc_description pd,
                d_created_at = now, d_updated_at = None\<rparr> \<and>
         get_department s' (d_id row) = Some row)) \<and>
   (nid \<notin> r_id ` set (roles s) \<and> rc_department_id pr \<in> d_id ` set (departments s) \<longrightarrow>
      (\<exists>s' row. create_role s nid now pr = Inr (s', row) \<and>
         row = \<lparr>r_id = nid, r_name = rc_name pr, r_description = rc_description pr,
                r_department_id = rc_department_id pr, r_created_at = now,
                r_updated_at = None\<rparr> \<and>
         get_role s' (r_id row) = Some row)) \<and>
   (nid \<notin> f_id ` set (functions s) \<and> fc_role_id pf \<in> r_id ` set (roles s) \<longrightarrow>
      (\<exists>s' row. create_function s nid now pf = Inr (s', row) \<and>
         row = \<lparr>f_id = nid, f_name = fc_name pf, f_description = fc_description pf,
                f_role_id = fc_role_id pf, f_created_at = now, f_updated_at = None\<rparr> \<and>
         get_function s' (f_id row) = Some row \<and> read_function s' (f_id row) = (s', Inr row)))"
proof (intro conjI impI)
  assume "nid \<notin> t_id ` set (tasks s)"
  then show "\<exists>s' row. create_task s nid now pt = Inr (s', row) \<and>
         row = \<lparr>t_id = nid, t_title = tc_title pt, t_description = tc_description pt,
                t_completed = tc_completed pt, t_created_at = now, t_updated_at = None\<rparr> \<and>
         get_task s' (t_id row) = Some row \<and> read_task s' (t_id row) = (s', Inr row)"
    by (simp add: create_task_def get_task_def read_task_def Let_def find_snoc_fresh)
next
  assume "nid \<notin> d_id ` set (departments s)"
  then show "\<exists>s' row. create_department s nid now pd = Inr (s', row) \<and>
         row = \<lparr>d_id = nid, d_name = dc_name pd, d_description = dc_description pd,
                d_created_at = now, d_updated_at = None\<rparr> \<and>
         get_department s' (d_id row) = Some row"
    by (simp add: create_department_def get_department_def Let_def find_snoc_fresh)
next
  assume "nid \<notin> r_id ` set (roles s) \<and> rc_department_id pr \<in> d_id ` set (departments s)"
  then show "\<exists>s' row. create_role s nid now pr = Inr (s', row) \<and>
         row = \<lparr>r_id = nid, r_name = rc_name pr, r_description = rc_description pr,
                r_department_id = rc_department_id pr, r_created_at = now,
                r_updated_at = None\<rparr> \<and>
         get_role s' (r_id row) = Some row"
    by (simp add: create_role_def get_role_def Let_def find_snoc_fresh foreign_key_ok_def)
next
  assume "nid \<notin> f_id ` set (functions s) \<and> fc_role_id pf \<in> r_id ` set (roles s)"
  then show "\<exists>s' row. create_function s nid now pf = Inr (s', row) \<and>
         row = \<lparr>f_id = nid, f_name = fc_name pf, f_description = fc_description pf,
                f_role_id = fc_role_id pf, f_created_at = now, f_updated_at = None\<rparr> \<and>
         get_function s' (f_id row) = Some row \<and> read_function s' (f_id row) = (s', Inr row)"
    by (simp add: create_function_def get_function_def read_function_def Let_def
        find_snoc_fresh foreign_key_ok_def)
qed

theorem create_then_get_witness:
  "(5 \<notin> t_id ` set (tasks example_db) \<and> 5 \<notin> d_id ` set (departments example_db) \<and>
    5 \<notin> r_id ` set (roles example_db) \<and>
    rc_department_id support \<in> d_id ` set (departments example_db) \<and>
    5 \<notin> f_id ` set (functions example_db) \<and>
    fc_role_id invoice \<in> r_id ` set (roles example_db)) \<and>
   (\<exists>s' row. create_task example_db 5 300 buy_milk = Inr (s', row) \<and>
       get_task s' (t_id row) = Some row \<and> read_task s' (t_id row) = (s', Inr row)) \<and>
   (\<exists>s' row. create_department example_db 5 300 research = Inr (s', row) \<and>
       get_department s' (d_id row) = Some row) \<and>
   (\<exists>s' row. create_role example_db 5 300 support = Inr (s', row) \<and>
       get_role s' (r_id row) = Some row) \<and>
   (\<exists>s' row. create_function example_db 5 300 invoice = Inr (s', row) \<and>
       get_function s' (f_id row) = Some row \<and> read_function s' (f_id row) = (s', Inr row))"
proof -
  have hyps:
    "5 \<notin> t_id ` set (tasks example_db) \<and> 5 \<notin> d_id ` set (departments example_db) \<and>
     5 \<notin> r_id ` set (roles example_db) \<and>
     rc_department_id support \<in> d_id ` set (departments example_db) \<and>
     5 \<notin> f_id ` set (functions example_db) \<and>
     fc_role_id invoice \<in> r_id ` set (roles example_db)"
    by (simp add: example_db_eq support_def invoice_def)
  with create_then_get [of 5 example_db 300 buy_milk research support invoice]
  show ?thesis by blast
qed

text \<open>
  C10. The read handlers (get one, list, list by parent), for every entity type and all
  arguments, return the state they were given. The repository functions behind them
  (\<open>get_task\<close>, \<open>get_tasks\<close>, \<open>get_roles_by_department\<close>, ...) are queries on the state
  and return no state at all.
\<close>

theorem reads_keep_state:
  "fst (read_task s i) = s \<and> fst (read_tasks s skip limit) = s \<and>
   fst (read_department s i) = s \<and> fst (read_departments s skip limit) = s \<and>
   fst (read_role s i) = s \<and> fst (read_roles s skip limit) = s \<and>
   fst (read_roles_by_department s i skip limit) = s \<and>
   fst (read_function s i) = s \<and> fst (read_functions s skip limit) = s \<and>
   fst (read_functions_by_role s i skip limit) = s"
  by (simp add: read_task_def read_tasks_def read_department_def read_departments_def
      read_role_def read_roles_def read_roles_by_department_def read_function_def
      read_functions_def read_functions_by_role_def split: option.splits)

text \<open>
  C9. A successful update of an existing entity, for each entity type: the row it returns
  has the id and the \<open>created_at\<close> of the row that was stored, and its base fields are
  the payload's; get on the id now returns that row; the rows with another id, the order
  of the ids in the table and the three other tables are as before. So besides the base
  fields only \<open>updated_at\<close> can differ.
\<close>

theorem update_keeps_id_and_created_at:
  "(get_task s i = Some t0 \<and> update_task s now i pt = (st, Some t1) \<longrightarrow>
      t_id t1 = t_id t0 \<and> t_created_at t1 = t_created_at t0 \<and>
      t_title t1 = tc_title pt \<and> t_description t1 = tc_description pt \<and> t_completed t1 = tc_completed pt \<and>
      get_task st i = Some t1 \<and>
      filter (\<lambda>x. t_id x \<noteq> i) (tasks st) = filter (\<lambda>x. t_id x \<noteq> i) (tasks s) \<and>
      map t_id (tasks st) = map t_id (tasks s) \<and>
      departments st = departments s \<and> roles st = roles s \<and> functions st = functions s) \<and>
   (get_department s i = Some d0 \<and> update_department s now i pd = (sd, Some d1) \<longrightarrow>
      d_id d1 = d_id d0 \<and> d_created_at d1 = d_created_at d0 \<and>
      d_name d1 = dc_name pd \<and> d_description d1 = dc_description pd \<and>
      get_department sd i = Some d1 \<and>
      filter (\<lambda>x. d_id x \<noteq> i) (departments sd) = filter (\<lambda>x. d_id x \<noteq> i) (departments s) \<and>
      map d_id (departments sd) = map d_id (departments s) \<and>
      tasks sd = tasks s \<and> roles sd = roles s \<and> functions sd = functions s) \<and>
   (get_role s i = Some r0 \<and> update_role s now i pr = Inr (sr, Some r1) \<longrightarrow>
      r_id r1 = r_id r0 \<and> r_created_at r1 = r_created_at r0 \<and>
      r_name r1 = rc_name pr \<and> r_description r1 = rc_description pr \<and> r_department_id r1 = rc_department_id pr \<and>
      get_role sr i = Some r1 \<and>
      filter (\<lambda>x. r_id x \<noteq> i) (roles sr) = filter (\<lambda>x. r_id x \<noteq> i) (roles s) \<and>
      map r_id (roles sr) = map r_id (roles s) \<and>
      tasks sr = tasks s \<and> departments sr = departments s \<and> functions sr = functions s) \<and>
   (get_function s i = Some f0 \<and> update_function s now i pf = Inr (sf, Some f1) \<longrightarrow>
      f_id f1 = f_id f0 \<and> f_created_at f1 = f_created_at f0 \<and>
      f_name f1 = fc_name pf \<and> f_description f1 = fc_description pf \<and> f_role_id f1 = fc_role_id pf \<and>
      get_function sf i = Some f1 \<and>
      filter (\<lambda>x. f_id x \<noteq> i) (functions sf) = filter (\<lambda>x. f_id x \<noteq> i) (functions s) \<and>
      map f_id (functions sf) = map f_id (functions s) \<and>
      tasks sf = tasks s \<and> departments sf = departments s \<and> roles sf = roles s)"
proof (intro conjI impI)
  assume a: "get_task s i = Some t0 \<and> update_task s now i pt = (st, Some t1)"
  then have g: "get_task s i = Some t0" and u: "update_task s now i pt = (st, Some t1)"
    by simp_all
  show "t_id t1 = t_id t0" by (rule update_task_frame(1) [OF g u])
  show "t_created_at t1 = t_created_at t0" by (rule update_task_frame(2) [OF g u])
  show "t_title t1 = tc_title pt" "t_description t1 = tc_description pt" "t_completed t1 = tc_completed pt"
    using update_task_frame(3) [OF g u] by simp_all
  show "get_task st i = Some t1" by (rule update_task_frame(5) [OF g u])
  show "filter (\<lambda>x. t_id x \<noteq> i) (tasks st) = filter (\<lambda>x. t_id x \<noteq> i) (tasks s)"
    by (rule update_task_frame(6) [OF g u])
  show "map t_id (tasks st) = map t_id (tasks s)"
    by (rule update_task_frame(7) [OF g u])
  show "departments st = departments s" "roles st = roles s" "functions st = functions s"
    using update_task_frame(8) [OF g u] by simp_all
next
  assume a: "get_department s i = Some d0 \<and> update_department s now i pd = (sd, Some d1)"
  then have g: "get_department s i = Some d0" and u: "update_department s now i pd = (sd, Some d1)"
    by simp_all
  show "d_id d1 = d_id d0" by (rule update_department_frame(1) [OF g u])
  show "d_created_at d1 = d_created_at d0" by (rule update_department_frame(2) [OF g u])
  show "d_name d1 = dc_name pd" "d_description d1 = dc_description pd"
    using update_department_frame(3) [OF g u] by simp_all
  show "get_department sd i = Some d1" by (rule update_department_frame(5) [OF g u])
  show "filter (\<lambda>x. d_id x \<noteq> i) (departments sd) = filter (\<lambda>x. d_id x \<noteq> i) (departments s)"
    by (rule update_department_frame(6) [OF g u])
  show "map d_id (departments sd) = map d_id (departments s)"
    by (rule update_department_frame(7) [OF g u])
  show "tasks sd = tasks s" "roles sd = roles s" "functions sd = functions s"
    using update_department_frame(8) [OF g u] by simp_all
next
  assume a: "get_role s i = Some r0 \<and> update_role s now i pr = Inr (sr, Some r1)"
  then have g: "get_role s i = Some r0" and u: "update_role s now i pr = Inr (sr, Some r1)"
    by simp_all
  show "r_id r1 = r_id r0" by (rule update_role_frame(1) [OF g u])
  show "r_created_at r1 = r_created_at r0" by (rule update_role_frame(2) [OF g u])
  show "r_name r1 = rc_name pr" "r_description r1 = rc_description pr" "r_department_id r1 = rc_department_id pr"
    using update_role_frame(3) [OF g u] by simp_all
  show "get_role sr i = Some r1" by (rule update_role_frame(5) [OF g u])
  show "filter (\<lambda>x. r_id x \<noteq> i) (roles sr) = filter (\<lambda>x. r_id x \<noteq> i) (roles s)"
    by (rule update_role_frame(6) [OF g u])
  show "map r_id (roles sr) = map r_id (roles s)"
    by (rule update_role_frame(7) [OF g u])
  show "tasks sr = tasks s" "departments sr = departments s" "functions sr = functions s"
    using update_role_frame(8) [OF g u] by simp_all
next
  assume a: "get_function s i = Some f0 \<and> update_function s now i pf = Inr (sf, Some f1)"
  then have g: "get_function s i = Some f0" and u: "update_function s now i pf = Inr (sf, Some f1)"
    by simp_all
  show "f_id f1 = f_id f0" by (rule update_function_frame(1) [OF g u])
  show "f_created_at f1 = f_created_at f0" by (rule update_function_frame(2) [OF g u])
  show "f_name f1 = fc_name pf" "f_description f1 = fc_description pf" "f_role_id f1 = fc_role_id pf"
    using update_function_frame(3) [OF g u] by simp_all
  show "get_function sf i = Some f1" by (rule update_function_frame(5) [OF g u])
  show "filter (\<lambda>x. f_id x \<noteq> i) (functions sf) = filter (\<lambda>x. f_id x \<noteq> i) (functions s)"
    by (rule update_function_frame(6) [OF g u])
  show "map f_id (functions sf) = map f_id (functions s)"
    by (rule update_function_frame(7) [OF g u])
  show "tasks sf = tasks s" "departments sf = departments s" "roles sf = roles s"
    using update_function_frame(8) [OF g u] by simp_all
qed

theorem update_keeps_id_and_created_at_witness:
  "get_task example_db 1 = Some stored_task \<and>
   update_task example_db 200 1 done_milk = (example_db\<lparr>tasks := changed_task # tl (tasks example_db)\<rparr>, Some changed_task) \<and>
   t_id changed_task = t_id stored_task \<and>
   t_created_at changed_task = t_created_at stored_task \<and>
   get_department example_db 1 = Some stored_department \<and>
   update_department example_db 200 1 research = (example_db\<lparr>departments := changed_department # tl (departments example_db)\<rparr>, Some changed_department) \<and>
   d_id changed_department = d_id stored_department \<and>
   d_created_at changed_department = d_created_at stored_department \<and>
   get_role example_db 1 = Some stored_role \<and>
   update_role example_db 200 1 support = Inr (example_db\<lparr>roles := changed_role # tl (roles example_db)\<rparr>, Some changed_role) \<and>
   r_id changed_role = r_id stored_role \<and>
   r_created_at changed_role = r_created_at stored_role \<and>
   get_function example_db 1 = Some stored_function \<and>
   update_function example_db 200 1 invoice = Inr (example_db\<lparr>functions := changed_function # tl (functions example_db)\<rparr>, Some changed_function) \<and>
   f_id changed_function = f_id stored_function \<and>
   f_created_at changed_function = f_created_at stored_function"
  using update_keeps_id_and_created_at [of example_db 1
      stored_task
      200 done_milk "example_db\<lparr>tasks := changed_task # tl (tasks example_db)\<rparr>" changed_task
      stored_department
      research "example_db\<lparr>departments := changed_department # tl (departments example_db)\<rparr>" changed_department
      stored_role
      support "example_db\<lparr>roles := changed_role # tl (roles example_db)\<rparr>" changed_role
      stored_function
      invoice "example_db\<lparr>functions := changed_function # tl (functions example_db)\<rparr>" changed_function]
    example_get_task example_update_task example_get_department example_update_department
    example_get_role example_update_role example_get_function example_update_function
  by simp

text \<open>
  C4, as stated, fails: a successful update whose payload equals the stored base fields
  emits no UPDATE, so \<open>onupdate\<close> does not run and \<open>updated_at\<close> stays null. The task of
  the example was created and never changed; PUT with the same fields answers with the
  row and \<open>updated_at = None\<close>.
\<close>

theorem update_same_fields_keeps_updated_at_null:
  "update_task example_db 200 1 buy_milk =
     (example_db, Some stored_task) \<and>
   routers_update_task example_db 200 1 buy_milk =
     (example_db, Inr stored_task) \<and>
   t_updated_at stored_task = None"
  unfolding routers_update_task_def update_task_result [OF example_get_task]
  by (simp add: task_setattrs_def buy_milk_def stored_task_def)

text \<open>
  C4, amended. For each entity type:
  \<^item> the row that create stores and returns has \<open>updated_at\<close> null;
  \<^item> a successful update whose payload equals the stored base fields writes nothing: the
    state it returns is the state it was given and the row it returns is the stored row,
    so \<open>updated_at\<close> is as it was;
  \<^item> a successful update whose payload differs from the stored base fields in at least one
    field sets \<open>updated_at\<close> to the mutation time \<open>now\<close>, in the row it returns and in the
    row that is stored afterwards, so \<open>updated_at\<close> is non-null;
  \<^item> in a state with unique ids, an entity that exists before and after a writing request
    is stored unchanged, unless the request is an update of that entity whose payload
    differs from its base fields;
  \<^item> so \<open>updated_at\<close> is null from creation until the first update that changes a base
    field: when an entity's \<open>updated_at\<close> is null and a sequence of requests never changes
    the entity, its \<open>updated_at\<close> is null after the sequence.
\<close>

theorem updated_at_set_by_changing_update:
  "(create_task s nid now pt = Inr (ct, t_made) \<longrightarrow>
      t_updated_at t_made = None \<and> get_task ct (t_id t_made) = Some t_made) \<and>
   (create_department s nid now pd = Inr (cd, d_made) \<longrightarrow>
      d_updated_at d_made = None \<and> get_department cd (d_id d_made) = Some d_made) \<and>
   (create_role s nid now pr = Inr (cr, r_made) \<longrightarrow>
      r_updated_at r_made = None \<and> get_role cr (r_id r_made) = Some r_made) \<and>
   (create_function s nid now pf = Inr (cf, f_made) \<longrightarrow>
      f_updated_at f_made = None \<and> get_function cf (f_id f_made) = Some f_made) \<and>
   (get_task s i = Some t_old \<and> update_task s now i pt = (st, Some t_new) \<longrightarrow>
      get_task st i = Some t_new \<and>
      (if t_title t_old = tc_title pt \<and> t_description t_old = tc_description pt \<and> t_completed t_old = tc_completed pt
       then st = s \<and> t_new = t_old
       else t_updated_at t_new = Some now)) \<and>
   (get_department s i = Some d_old \<and> update_department s now i pd = (sd, Some d_new) \<longrightarrow>
      get_department sd i = Some d_new \<and>
      (if d_name d_old = dc_name pd \<and> d_description d_old = dc_description pd
       then sd = s \<and> d_new = d_old
       else d_updated_at d_new = Some now)) \<and>
   (get_role s i = Some r_old \<and> update_role s now i pr = Inr (sr, Some r_new) \<longrightarrow>
      get_role sr i = Some r_new \<and>
      (if r_name r_old = rc_name pr \<and> r_description r_old = rc_description pr \<and> r_department_id r_old = rc_department_id pr
       then sr = s \<and> r_new = r_old
       else r_updated_at r_new = Some now)) \<and>
   (get_function s i = Some f_old \<and> update_function s now i pf = Inr (sf, Some f_new) \<longrightarrow>
      get_function sf i = Some f_new \<and>
      (if f_name f_old = fc_name pf \<and> f_description f_old = fc_description pf \<and> f_role_id f_old = fc_role_id pf
       then sf = s \<and> f_new = f_old
       else f_updated_at f_new = Some now)) \<and>
   (ids_unique s \<and> get_task s i = Some t_old \<and> get_task (serve s q) i = Some t_kept \<longrightarrow>
      t_kept = t_old \<or>
      (\<exists>time p. q = UpdateTask time i p \<and> \<not> (t_title t_old = tc_title p \<and> t_description t_old = tc_description p \<and> t_completed t_old = tc_completed p) \<and>
         t_updated_at t_kept = Some time)) \<and>
   (ids_unique s \<and> get_department s i = Some d_old \<and> get_department (serve s q) i = Some d_kept \<longrightarrow>
      d_kept = d_old \<or>
      (\<exists>time p. q = UpdateDepartment time i p \<and> \<not> (d_name d_old = dc_name p \<and> d_description d_old = dc_description p) \<and>
         d_updated_at d_kept = Some time)) \<and>
   (ids_unique s \<and> get_role s i = Some r_old \<and> get_role (serve s q) i = Some r_kept \<longrightarrow>
      r_kept = r_old \<or>
      (\<exists>time p. q = UpdateRole time i p \<and> \<not> (r_name r_old = rc_name p \<and> r_description r_old = rc_description p \<and> r_department_id r_old = rc_department_id p) \<and>
         r_updated_at r_kept = Some time)) \<and>
   (ids_unique s \<and> get_function s i = Some f_old \<and> get_function (serve s q) i = Some f_kept \<longrightarrow>
      f_kept = f_old \<or>
      (\<exists>time p. q = UpdateFunction time i p \<and> \<not> (f_name f_old = fc_name p \<and> f_description f_old = fc_description p \<and> f_role_id f_old = fc_role_id p) \<and>
         f_updated_at f_kept = Some time)) \<and>
   (ids_unique s \<and> get_task s i = Some t_old \<and> t_updated_at t_old = None \<and>
    never_changes_task s reqs i \<and> get_task (foldl serve s reqs) i = Some t_last \<longrightarrow>
      t_updated_at t_last = None) \<and>
   (ids_unique s \<and> get_department s i = Some d_old \<and> d_updated_at d_old = None \<and>
    never_changes_department s reqs i \<and> get_department (foldl serve s reqs) i = Some d_last \<longrightarrow>
      d_updated_at d_last = None) \<and>
   (ids_unique s \<and> get_role s i = Some r_old \<and> r_updated_at r_old = None \<and>
    never_changes_role s reqs i \<and> get_role (foldl serve s reqs) i = Some r_last \<longrightarrow>
      r_updated_at r_last = None) \<and>
   (ids_unique s \<and> get_function s i = Some f_old \<and> f_updated_at f_old = None \<and>
    never_changes_function s reqs i \<and> get_function (foldl serve s reqs) i = Some f_last \<longrightarrow>
      f_updated_at f_last = None)"
proof -
  have made_task: "create_task s nid now pt = Inr (ct, t_made) \<longrightarrow>
      t_updated_at t_made = None \<and> get_task ct (t_id t_made) = Some t_made"
    by (auto simp: create_task_def Let_def get_task_def find_snoc_fresh [where key = t_id]
        split: if_splits)
  have made_department: "create_department s nid now pd = Inr (cd, d_made) \<longrightarrow>
      d_updated_at d_made = None \<and> get_department cd (d_id d_made) = Some d_made"
    by (auto simp: create_department_def Let_def get_department_def find_snoc_fresh [where key = d_id]
        split: if_splits)
  have made_role: "create_role s nid now pr = Inr (cr, r_made) \<longrightarrow>
      r_updated_at r_made = None \<and> get_role cr (r_id r_made) = Some r_made"
    by (auto simp: create_role_def Let_def get_role_def find_snoc_fresh [where key = r_id]
        split: if_splits)
  have made_function: "create_function s nid now pf = Inr (cf, f_made) \<longrightarrow>
      f_updated_at f_made = None \<and> get_function cf (f_id f_made) = Some f_made"
    by (auto simp: create_function_def Let_def get_function_def find_snoc_fresh [where key = f_id]
        split: if_splits)
  have update_task: "get_task s i = Some t_old \<and> update_task s now i pt = (st, Some t_new) \<longrightarrow>
      get_task st i = Some t_new \<and>
      (if t_title t_old = tc_title pt \<and> t_description t_old = tc_description pt \<and> t_completed t_old = tc_completed pt
       then st = s \<and> t_new = t_old
       else t_updated_at t_new = Some now)"
  proof (rule impI)
    assume "get_task s i = Some t_old \<and> update_task s now i pt = (st, Some t_new)"
    then have g: "get_task s i = Some t_old" and upd: "update_task s now i pt = (st, Some t_new)"
      by simp_all
    note w = upd [unfolded update_task_result [OF g]]
    have stored: "get_task st i = Some t_new" by (rule update_task_frame(5) [OF g upd])
    have stamp: "(if t_title t_old = tc_title pt \<and> t_description t_old = tc_description pt \<and> t_completed t_old = tc_completed pt
       then st = s \<and> t_new = t_old
       else t_updated_at t_new = Some now)"
      using w by (auto simp: task_setattrs_same [symmetric] split: if_splits)
    from stored stamp show "get_task st i = Some t_new \<and>
      (if t_title t_old = tc_title pt \<and> t_description t_old = tc_description pt \<and> t_completed t_old = tc_completed pt
       then st = s \<and> t_new = t_old
       else t_updated_at t_new = Some now)"
      by (rule conjI)
  qed
  have update_department: "get_department s i = Some d_old \<and> update_department s now i pd = (sd, Some d_new) \<longrightarrow>
      get_department sd i = Some d_new \<and>
      (if d_name d_old = dc_name pd \<and> d_description d_old = dc_description pd
       then sd = s \<and> d_new = d_old
       else d_updated_at d_new = Some now)"
  proof (rule impI)
    assume "get_department s i = Some d_old \<and> update_department s now i pd = (sd, Some d_new)"
    then have g: "get_department s i = Some d_old" and upd: "update_department s now i pd = (sd, Some d_new)"
      by simp_all
    note w = upd [unfolded update_department_result [OF g]]
    have stored: "get_department sd i = Some d_new" by (rule update_department_frame(5) [OF g upd])
    have stamp: "(if d_name d_old = dc_name pd \<and> d_description d_old = dc_description pd
       then sd = s \<and> d_new = d_old
       else d_updated_at d_new = Some now)"
      using w by (auto simp: department_setattrs_same [symmetric] split: if_splits)
    from stored stamp show "get_department sd i = Some d_new \<and>
      (if d_name d_old = dc_name pd \<and> d_description d_old = dc_description pd
       then sd = s \<and> d_new = d_old
       else d_updated_at d_new = Some now)"
      by (rule conjI)
  qed
  have update_role: "get_role s i = Some r_old \<and> update_role s now i pr = Inr (sr, Some r_new) \<longrightarrow>
      get_role sr i = Some r_new \<and>
      (if r_name r_old = rc_name pr \<and> r_description r_old = rc_description pr \<and> r_department_id r_old = rc_department_id pr
       then sr = s \<and> r_new = r_old
       else r_updated_at r_new = Some now)"
  proof (rule impI)
    assume "get_role s i = Some r_old \<and> update_role s now i pr = Inr (sr, Some r_new)"
    then have g: "get_role s i = Some r_old" and upd: "update_role s now i pr = Inr (sr, Some r_new)"
      by simp_all
    note w = upd [unfolded update_role_result [OF g]]
    have stored: "get_role sr i = Some r_new" by (rule update_role_frame(5) [OF g upd])
    have stamp: "(if r_name r_old = rc_name pr \<and> r_description r_old = rc_description pr \<and> r_department_id r_old = rc_department_id pr
       then sr = s \<and> r_new = r_old
       else r_updated_at r_new = Some now)"
      using w by (auto simp: role_setattrs_same [symmetric] split: if_splits)
    from stored stamp show "get_role sr i = Some r_new \<and>
      (if r_name r_old = rc_name pr \<and> r_description r_old = rc_description pr \<and> r_department_id r_old = rc_department_id pr
       then sr = s \<and> r_new = r_old
       else r_updated_at r_new = Some now)"
      by (rule conjI)
  qed
  have update_function: "get_function s i = Some f_old \<and> update_function s now i pf = Inr (sf, Some f_new) \<longrightarrow>
      get_function sf i = Some f_new \<and>
      (if f_name f_old = fc_name pf \<and> f_description f_old = fc_description pf \<and> f_role_id f_old = fc_role_id pf
       then sf = s \<and> f_new = f_old
       else f_updated_at f_new = Some now)"
  proof (rule impI)
    assume "get_function s i = Some f_old \<and> update_function s now i pf = Inr (sf, Some f_new)"
    then have g: "get_function s i = Some f_old" and upd: "update_function s now i pf = Inr (sf, Some f_new)"
      by simp_all
    note w = upd [unfolded update_function_result [OF g]]
    have stored: "get_function sf i = Some f_new" by (rule update_function_frame(5) [OF g upd])
    have stamp: "(if f_name f_old = fc_name pf \<and> f_description f_old = fc_description pf \<and> f_role_id f_old = fc_role_id pf
       then sf = s \<and> f_new = f_old
       else f_updated_at f_new = Some now)"
      using w by (auto simp: function_setattrs_same [symmetric] split: if_splits)
    from stored stamp show "get_function sf i = Some f_new \<and>
      (if f_name f_old = fc_name pf \<and> f_description f_old = fc_description pf \<and> f_role_id f_old = fc_role_id pf
       then sf = s \<and> f_new = f_old
       else f_updated_at f_new = Some now)"
      by (rule conjI)
  qed
  have kept_task: "ids_unique s \<and> get_task s i = Some t_old \<and> get_task (serve s q) i = Some t_kept \<longrightarrow>
      t_kept = t_old \<or>
      (\<exists>time p. q = UpdateTask time i p \<and> \<not> (t_title t_old = tc_title p \<and> t_description t_old = tc_description p \<and> t_completed t_old = tc_completed p) \<and>
         t_updated_at t_kept = Some time)"
  proof (rule impI)
    assume "ids_unique s \<and> get_task s i = Some t_old \<and> get_task (serve s q) i = Some t_kept"
    then have "ids_unique s" and "get_task s i = Some t_old"
      and "get_task (serve s q) i = Some t_kept"
      by simp_all
    then show "t_kept = t_old \<or>
      (\<exists>time p. q = UpdateTask time i p \<and> \<not> (t_title t_old = tc_title p \<and> t_description t_old = tc_description p \<and> t_completed t_old = tc_completed p) \<and>
         t_updated_at t_kept = Some time)"
      by (rule task_kept)
  qed
  have kept_department: "ids_unique s \<and> get_department s i = Some d_old \<and> get_department (serve s q) i = Some d_kept \<longrightarrow>
      d_kept = d_old \<or>
      (\<exists>time p. q = UpdateDepartment time i p \<and> \<not> (d_name d_old = dc_name p \<and> d_description d_old = dc_description p) \<and>
         d_updated_at d_kept = Some time)"
  proof (rule impI)
    assume "ids_unique s \<and> get_department s i = Some d_old \<and> get_department (serve s q) i = Some d_kept"
    then have "ids_unique s" and "get_department s i = Some d_old"
      and "get_department (serve s q) i = Some d_kept"
      by simp_all
    then show "d_kept = d_old \<or>
      (\<exists>time p. q = UpdateDepartment time i p \<and> \<not> (d_name d_old = dc_name p \<and> d_description d_old = dc_description p) \<and>
         d_updated_at d_kept = Some time)"
      by (rule department_kept)
  qed
  have kept_role: "ids_unique s \<and> get_role s i = Some r_old \<and> get_role (serve s q) i = Some r_kept \<longrightarrow>
      r_kept = r_old \<or>
      (\<exists>time p. q = UpdateRole time i p \<and> \<not> (r_name r_old = rc_name p \<and> r_description r_old = rc_description p \<and> r_department_id r_old = rc_department_id p) \<and>
         r_updated_at r_kept = Some time)"
  proof (rule impI)
    assume "ids_unique s \<and> get_role s i = Some r_old \<and> get_role (serve s q) i = Some r_kept"
    then have "ids_unique s" and "get_role s i = Some r_old"
      and "get_role (serve s q) i = Some r_kept"
      by simp_all
    then show "r_kept = r_old \<or>
      (\<exists>time p. q = UpdateRole time i p \<and> \<not> (r_name r_old = rc_name p \<and> r_description r_old = rc_description p \<and> r_department_id r_old = rc_department_id p) \<and>
         r_updated_at r_kept = Some time)"
      by (rule role_kept)
  qed
  have kept_function: "ids_unique s \<and> get_function s i = Some f_old \<and> get_function (serve s q) i = Some f_kept \<longrightarrow>
      f_kept = f_old \<or>
      (\<exists>time p. q = UpdateFunction time i p \<and> \<not> (f_name f_old = fc_name p \<and> f_description f_old = fc_description p \<and> f_role_id f_old = fc_role_id p) \<and>
         f_updated_at f_kept = Some time)"
  proof (rule impI)
    assume "ids_unique s \<and> get_function s i = Some f_old \<and> get_function (serve s q) i = Some f_kept"
    then have "ids_unique s" and "get_function s i = Some f_old"
      and "get_function (serve s q) i = Some f_kept"
      by simp_all
    then show "f_kept = f_old \<or>
      (\<exists>time p. q = UpdateFunction time i p \<and> \<not> (f_name f_old = fc_name p \<and> f_description f_old = fc_description p \<and> f_role_id f_old = fc_role_id p) \<and>
         f_updated_at f_kept = Some time)"
      by (rule function_kept)
  qed
  have null_task: "ids_unique s \<and> get_task s i = Some t_old \<and> t_updated_at t_old = None \<and>
    never_changes_task s reqs i \<and> get_task (foldl serve s reqs) i = Some t_last \<longrightarrow>
      t_updated_at t_last = None"
  proof (rule impI)
    assume "ids_unique s \<and> get_task s i = Some t_old \<and> t_updated_at t_old = None \<and>
    never_changes_task s reqs i \<and> get_task (foldl serve s reqs) i = Some t_last"
    then have u: "ids_unique s" and g: "get_task s i = Some t_old"
      and z: "t_updated_at t_old = None" and quiet: "never_changes_task s reqs i"
      and last: "get_task (foldl serve s reqs) i = Some t_last"
      by simp_all
    from g z have "\<forall>r. get_task s i = Some r \<longrightarrow> t_updated_at r = None" by simp
    from never_changes_task_null [OF u this quiet last] show "t_updated_at t_last = None" .
  qed
  have null_department: "ids_unique s \<and> get_department s i = Some d_old \<and> d_updated_at d_old = None \<and>
    never_changes_department s reqs i \<and> get_department (foldl serve s reqs) i = Some d_last \<longrightarrow>
      d_updated_at d_last = None"
  proof (rule impI)
    assume "ids_unique s \<and> get_department s i = Some d_old \<and> d_updated_at d_old = None \<and>
    never_changes_department s reqs i \<and> get_department (foldl serve s reqs) i = Some d_last"
    then have u: "ids_unique s" and g: "get_department s i = Some d_old"
      and z: "d_updated_at d_old = None" and quiet: "never_changes_department s reqs i"
      and last: "get_department (foldl serve s reqs) i = Some d_last"
      by simp_all
    from g z have "\<forall>r. get_department s i = Some r \<longrightarrow> d_updated_at r = None" by simp
    from never_changes_department_null [OF u this quiet last] show "d_updated_at d_last = None" .
  qed
  have null_role: "ids_unique s \<and> get_role s i = Some r_old \<and> r_updated_at r_old = None \<and>
    never_changes_role s reqs i \<and> get_role (foldl serve s reqs) i = Some r_last \<longrightarrow>
      r_updated_at r_last = None"
  proof (rule impI)
    assume "ids_unique s \<and> get_role s i = Some r_old \<and> r_updated_at r_old = None \<and>
    never_changes_role s reqs i \<and> get_role (foldl serve s reqs) i = Some r_last"
    then have u: "ids_unique s" and g: "get_role s i = Some r_old"
      and z: "r_updated_at r_old = None" and quiet: "never_changes_role s reqs i"
      and last: "get_role (foldl serve s reqs) i = Some r_last"
      by simp_all
    from g z have "\<forall>r. get_role s i = Some r \<longrightarrow> r_updated_at r = None" by simp
    from never_changes_role_null [OF u this quiet last] show "r_updated_at r_last = None" .
  qed
  have null_function: "ids_unique s \<and> get_function s i = Some f_old \<and> f_updated_at f_old = None \<and>
    never_changes_function s reqs i \<and> get_function (foldl serve s reqs) i = Some f_last \<longrightarrow>
      f_updated_at f_last = None"
  proof (rule impI)
    assume "ids_unique s \<and> get_function s i = Some f_old \<and> f_updated_at f_old = None \<and>
    never_changes_function s reqs i \<and> get_function (foldl serve s reqs) i = Some f_last"
    then have u: "ids_unique s" and g: "get_function s i = Some f_old"
      and z: "f_updated_at f_old = None" and quiet: "never_changes_function s reqs i"
      and last: "get_function (foldl serve s reqs) i = Some f_last"
      by simp_all
    from g z have "\<forall>r. get_function s i = Some r \<longrightarrow> f_updated_at r = None" by simp
    from never_changes_function_null [OF u this quiet last] show "f_updated_at f_last = None" .
  qed
  show ?thesis
    by (intro conjI made_task made_department made_role made_function update_task update_department update_role update_function kept_task kept_department kept_role kept_function null_task null_department null_role null_function)
qed

theorem updated_at_set_by_changing_update_witness:
  "(ids_unique example_db \<and>
    create_task example_db 5 200 done_milk = Inr (example_db\<lparr>tasks := tasks example_db @ [made_task]\<rparr>, made_task) \<and>
    create_department example_db 5 200 research = Inr (example_db\<lparr>departments := departments example_db @ [made_department]\<rparr>, made_department) \<and>
    create_role example_db 5 200 support = Inr (example_db\<lparr>roles := roles example_db @ [made_role]\<rparr>, made_role) \<and>
    create_function example_db 5 200 invoice = Inr (example_db\<lparr>functions := functions example_db @ [made_function]\<rparr>, made_function) \<and>
    get_task example_db 1 = Some stored_task \<and>
    update_task example_db 200 1 done_milk = (example_db\<lparr>tasks := changed_task # tl (tasks example_db)\<rparr>, Some changed_task) \<and>
    get_department example_db 1 = Some stored_department \<and>
    update_department example_db 200 1 research = (example_db\<lparr>departments := changed_department # tl (departments example_db)\<rparr>, Some changed_department) \<and>
    get_role example_db 1 = Some stored_role \<and>
    update_role example_db 200 1 support = Inr (example_db\<lparr>roles := changed_role # tl (roles example_db)\<rparr>, Some changed_role) \<and>
    get_function example_db 1 = Some stored_function \<and>
    update_function example_db 200 1 invoice = Inr (example_db\<lparr>functions := changed_function # tl (functions example_db)\<rparr>, Some changed_function) \<and>
    get_task (serve example_db (UpdateTask 200 1 done_milk)) 1 = Some changed_task \<and>
    get_department (serve example_db (UpdateTask 200 1 done_milk)) 1 = Some stored_department \<and>
    get_role (serve example_db (UpdateTask 200 1 done_milk)) 1 = Some stored_role \<and>
    get_function (serve example_db (UpdateTask 200 1 done_milk)) 1 = Some stored_function \<and>
    t_updated_at stored_task = None \<and>
    never_changes_task example_db [UpdateTask 200 1 buy_milk] 1 \<and>
    get_task (foldl serve example_db [UpdateTask 200 1 buy_milk]) 1 = Some stored_task \<and>
    d_updated_at stored_department = None \<and>
    never_changes_department example_db [UpdateTask 200 1 buy_milk] 1 \<and>
    get_department (foldl serve example_db [UpdateTask 200 1 buy_milk]) 1 = Some stored_department \<and>
    r_updated_at stored_role = None \<and>
    never_changes_role example_db [UpdateTask 200 1 buy_milk] 1 \<and>
    get_role (foldl serve example_db [UpdateTask 200 1 buy_milk]) 1 = Some stored_role \<and>
    f_updated_at stored_function = None \<and>
    never_changes_function example_db [UpdateTask 200 1 buy_milk] 1 \<and>
    get_function (foldl serve example_db [UpdateTask 200 1 buy_milk]) 1 = Some stored_function) \<and>
   t_updated_at made_task = None \<and>
   get_task (example_db\<lparr>tasks := tasks example_db @ [made_task]\<rparr>) (t_id made_task) = Some made_task \<and>
   get_task (example_db\<lparr>tasks := changed_task # tl (tasks example_db)\<rparr>) 1 = Some changed_task \<and>
   t_updated_at changed_task = Some 200 \<and>
   d_updated_at made_department = None \<and>
   get_department (example_db\<lparr>departments := departments example_db @ [made_department]\<rparr>) (d_id made_department) = Some made_department \<and>
   get_department (example_db\<lparr>departments := changed_department # tl (departments example_db)\<rparr>) 1 = Some changed_department \<and>
   d_updated_at changed_department = Some 200 \<and>
   r_updated_at made_role = None \<and>
   get_role (example_db\<lparr>roles := roles example_db @ [made_role]\<rparr>) (r_id made_role) = Some made_role \<and>
   get_role (example_db\<lparr>roles := changed_role # tl (roles example_db)\<rparr>) 1 = Some changed_role \<and>
   r_updated_at changed_role = Some 200 \<and>
   f_updated_at made_function = None \<and>
   get_function (example_db\<lparr>functions := functions example_db @ [made_function]\<rparr>) (f_id made_function) = Some made_function \<and>
   get_function (example_db\<lparr>functions := changed_function # tl (functions example_db)\<rparr>) 1 = Some changed_function \<and>
   f_updated_at changed_function = Some 200"
proof -
  note t = updated_at_set_by_changing_update [where s = example_db and nid = 5 and now = 200 and i = 1
      and q = "UpdateTask 200 1 done_milk" and reqs = "[UpdateTask 200 1 buy_milk]"
      and pt = done_milk and ct = "example_db\<lparr>tasks := tasks example_db @ [made_task]\<rparr>" and t_made = made_task
      and t_old = stored_task and st = "example_db\<lparr>tasks := changed_task # tl (tasks example_db)\<rparr>"
      and t_new = changed_task and t_kept = changed_task and t_last = stored_task
      and pd = research and cd = "example_db\<lparr>departments := departments example_db @ [made_department]\<rparr>" and d_made = made_department
      and d_old = stored_department and sd = "example_db\<lparr>departments := changed_department # tl (departments example_db)\<rparr>"
      and d_new = changed_department and d_kept = stored_department and d_last = stored_department
      and pr = support and cr = "example_db\<lparr>roles := roles example_db @ [made_role]\<rparr>" and r_made = made_role
      and r_old = stored_role and sr = "example_db\<lparr>roles := changed_role # tl (roles example_db)\<rparr>"
      and r_new = changed_role and r_kept = stored_role and r_last = stored_role
      and pf = invoice and cf = "example_db\<lparr>functions := functions example_db @ [made_function]\<rparr>" and f_made = made_function
      and f_old = stored_function and sf = "example_db\<lparr>functions := changed_function # tl (functions example_db)\<rparr>"
      and f_new = changed_function and f_kept = stored_function and f_last = stored_function]
  have nulls:
    "t_updated_at stored_task = None" "d_updated_at stored_department = None"
    "r_updated_at stored_role = None" "f_updated_at stored_function = None"
    by (simp_all add: stored_task_def stored_department_def stored_role_def
        stored_function_def)
  have hyps:
    "ids_unique example_db \<and>
     create_task example_db 5 200 done_milk = Inr (example_db\<lparr>tasks := tasks example_db @ [made_task]\<rparr>, made_task) \<and>
     create_department example_db 5 200 research = Inr (example_db\<lparr>departments := departments example_db @ [made_department]\<rparr>, made_department) \<and>
     create_role example_db 5 200 support = Inr (example_db\<lparr>roles := roles example_db @ [made_role]\<rparr>, made_role) \<and>
     create_function example_db 5 200 invoice = Inr (example_db\<lparr>functions := functions example_db @ [made_function]\<rparr>, made_function) \<and>
     get_task example_db 1 = Some stored_task \<and>
     update_task example_db 200 1 done_milk = (example_db\<lparr>tasks := changed_task # tl (tasks example_db)\<rparr>, Some changed_task) \<and>
     get_department example_db 1 = Some stored_department \<and>
     update_department example_db 200 1 research = (example_db\<lparr>departments := changed_department # tl (departments example_db)\<rparr>, Some changed_department) \<and>
     get_role example_db 1 = Some stored_role \<and>
     update_role example_db 200 1 support = Inr (example_db\<lparr>roles := changed_role # tl (roles example_db)\<rparr>, Some changed_role) \<and>
     get_function example_db 1 = Some stored_function \<and>
     update_function example_db 200 1 invoice = Inr (example_db\<lparr>functions := changed_function # tl (functions example_db)\<rparr>, Some changed_function) \<and>
     get_task (serve example_db (UpdateTask 200 1 done_milk)) 1 = Some changed_task \<and>
     get_department (serve example_db (UpdateTask 200 1 done_milk)) 1 = Some stored_department \<and>
     get_role (serve example_db (UpdateTask 200 1 done_milk)) 1 = Some stored_role \<and>
     get_function (serve example_db (UpdateTask 200 1 done_milk)) 1 = Some stored_function \<and>
     t_updated_at stored_task = None \<and>
     never_changes_task example_db [UpdateTask 200 1 buy_milk] 1 \<and>
     get_task (foldl serve example_db [UpdateTask 200 1 buy_milk]) 1 = Some stored_task \<and>
     d_updated_at stored_department = None \<and>
     never_changes_department example_db [UpdateTask 200 1 buy_milk] 1 \<and>
     get_department (foldl serve example_db [UpdateTask 200 1 buy_milk]) 1 = Some stored_department \<and>
     r_updated_at stored_role = None \<and>
     never_changes_role example_db [UpdateTask 200 1 buy_milk] 1 \<and>
     get_role (foldl serve example_db [UpdateTask 200 1 buy_milk]) 1 = Some stored_role \<and>
     f_updated_at stored_function = None \<and>
     never_changes_function example_db [UpdateTask 200 1 buy_milk] 1 \<and>
     get_function (foldl serve example_db [UpdateTask 200 1 buy_milk]) 1 = Some stored_function"
    using example_ids_unique example_create_task example_create_department
      example_create_role example_create_function example_get_task example_update_task
      example_get_department example_update_department example_get_role example_update_role
      example_get_function example_update_function example_never_changes
      example_get_after_serve example_get_after_same_fields
      nulls
    by (simp del: serve.simps never_changes_task.simps never_changes_department.simps
        never_changes_role.simps never_changes_function.simps)
  have differ:
    "\<not> (t_title stored_task = tc_title done_milk \<and> t_description stored_task = tc_description done_milk \<and> t_completed stored_task = tc_completed done_milk)"
    "\<not> (d_name stored_department = dc_name research \<and> d_description stored_department = dc_description research)"
    "\<not> (r_name stored_role = rc_name support \<and> r_description stored_role = rc_description support \<and> r_department_id stored_role = rc_department_id support)"
    "\<not> (f_name stored_function = fc_name invoice \<and> f_description stored_function = fc_description invoice \<and> f_role_id stored_function = fc_role_id invoice)"
    by (simp_all add: stored_task_def done_milk_def stored_department_def research_def
        stored_role_def support_def stored_function_def invoice_def)
  from t hyps differ show ?thesis
    by (simp del: serve.simps never_changes_task.simps never_changes_department.simps
        never_changes_role.simps never_changes_function.simps)
qed

text \<open>
  C5. For each entity type, with the table as the unrestricted list (rows in insertion
  order): for \<open>skip\<close> and \<open>limit\<close> that are not negative, list returns the table with its
  first \<open>skip\<close> rows dropped, cut after \<open>limit\<close> rows; with the defaults it returns the
  first 100 rows. The table is in creation order: create puts the new row after all the
  rows that exist, and no writing request changes the relative order of the ids that are
  listed (ids that are new come last).
\<close>

theorem list_in_insertion_order:
  "(0 \<le> skip \<and> 0 \<le> limit \<longrightarrow>
      get_tasks s skip limit = take (nat limit) (drop (nat skip) (tasks s))) \<and>
   get_tasks s 0 100 = take 100 (tasks s) \<and>
   (create_task s nid now pt = Inr (ct, t_made) \<longrightarrow> tasks ct = tasks s @ [t_made]) \<and>
   order_kept (map t_id (tasks s)) (map t_id (tasks (serve s q))) \<and>
   (0 \<le> skip \<and> 0 \<le> limit \<longrightarrow>
      get_departments s skip limit = take (nat limit) (drop (nat skip) (departments s))) \<and>
   get_departments s 0 100 = take 100 (departments s) \<and>
   (create_department s nid now pd = Inr (cd, d_made) \<longrightarrow> departments cd = departments s @ [d_made]) \<and>
   order_kept (map d_id (departments s)) (map d_id (departments (serve s q))) \<and>
   (0 \<le> skip \<and> 0 \<le> limit \<longrightarrow>
      get_roles s skip limit = take (nat limit) (drop (nat skip) (roles s))) \<and>
   get_roles s 0 100 = take 100 (roles s) \<and>
   (create_role s nid now pr = Inr (cr, r_made) \<longrightarrow> roles cr = roles s @ [r_made]) \<and>
   order_kept (map r_id (roles s)) (map r_id (roles (serve s q))) \<and>
   (0 \<le> skip \<and> 0 \<le> limit \<longrightarrow>
      get_functions s skip limit = take (nat limit) (drop (nat skip) (functions s))) \<and>
   get_functions s 0 100 = take 100 (functions s) \<and>
   (create_function s nid now pf = Inr (cf, f_made) \<longrightarrow> functions cf = functions s @ [f_made]) \<and>
   order_kept (map f_id (functions s)) (map f_id (functions (serve s q)))"
proof -
  have page_task: "0 \<le> skip \<and> 0 \<le> limit \<longrightarrow>
      get_tasks s skip limit = take (nat limit) (drop (nat skip) (tasks s))"
    by (simp add: get_tasks_def limit_q_def offset_q_def)
  have default_task: "get_tasks s 0 100 = take 100 (tasks s)"
    by (simp add: get_tasks_def limit_q_def offset_q_def)
  have made_task: "create_task s nid now pt = Inr (ct, t_made) \<longrightarrow> tasks ct = tasks s @ [t_made]"
    by (auto simp: create_task_def Let_def split: if_splits)
  have order_task: "order_kept (map t_id (tasks s)) (map t_id (tasks (serve s q)))"
    using rows_kept_serve [of s q] by (simp add: rows_kept_order)
  have page_department: "0 \<le> skip \<and> 0 \<le> limit \<longrightarrow>
      get_departments s skip limit = take (nat limit) (drop (nat skip) (departments s))"
    by (simp add: get_departments_def limit_q_def offset_q_def)
  have default_department: "get_departments s 0 100 = take 100 (departments s)"
    by (simp add: get_departments_def limit_q_def offset_q_def)
  have made_department: "create_department s nid now pd = Inr (cd, d_made) \<longrightarrow> departments cd = departments s @ [d_made]"
    by (auto simp: create_department_def Let_def split: if_splits)
  have order_department: "order_kept (map d_id (departments s)) (map d_id (departments (serve s q)))"
    using rows_kept_serve [of s q] by (simp add: rows_kept_order)
  have page_role: "0 \<le> skip \<and> 0 \<le> limit \<longrightarrow>
      get_roles s skip limit = take (nat limit) (drop (nat skip) (roles s))"
    by (simp add: get_roles_def limit_q_def offset_q_def)
  have default_role: "get_roles s 0 100 = take 100 (roles s)"
    by (simp add: get_roles_def limit_q_def offset_q_def)
  have made_role: "create_role s nid now pr = Inr (cr, r_made) \<longrightarrow> roles cr = roles s @ [r_made]"
    by (auto simp: create_role_def Let_def split: if_splits)
  have order_role: "order_kept (map r_id (roles s)) (map r_id (roles (serve s q)))"
    using rows_kept_serve [of s q] by (simp add: rows_kept_order)
  have page_function: "0 \<le> skip \<and> 0 \<le> limit \<longrightarrow>
      get_functions s skip limit = take (nat limit) (drop (nat skip) (functions s))"
    by (simp add: get_functions_def limit_q_def offset_q_def)
  have default_function: "get_functions s 0 100 = take 100 (functions s)"
    by (simp add: get_functions_def limit_q_def offset_q_def)
  have made_function: "create_function s nid now pf = Inr (cf, f_made) \<longrightarrow> functions cf = functions s @ [f_made]"
    by (auto simp: create_function_def Let_def split: if_splits)
  have order_function: "order_kept (map f_id (functions s)) (map f_id (functions (serve s q)))"
    using rows_kept_serve [of s q] by (simp add: rows_kept_order)
  show ?thesis
    by (intro conjI page_task default_task made_task order_task
        page_department default_department made_department order_department
        page_role default_role made_role order_role
        page_function default_function made_function order_function)
qed

theorem list_in_insertion_order_witness:
  "((0::int) \<le> 1 \<and> (0::int) \<le> 2) \<and>
   get_tasks example_db 1 2 = take 2 (drop 1 (tasks example_db)) \<and>
   create_task example_db 5 200 done_milk =
     Inr (example_db\<lparr>tasks := tasks example_db @ [made_task]\<rparr>,
          made_task) \<and>
   tasks (example_db\<lparr>tasks := tasks example_db @ [made_task]\<rparr>) =
     tasks example_db @ [made_task] \<and>
   get_departments example_db 1 2 = take 2 (drop 1 (departments example_db)) \<and>
   create_department example_db 5 200 research =
     Inr (example_db\<lparr>departments := departments example_db @ [made_department]\<rparr>,
          made_department) \<and>
   departments (example_db\<lparr>departments := departments example_db @ [made_department]\<rparr>) =
     departments example_db @ [made_department] \<and>
   get_roles example_db 1 2 = take 2 (drop 1 (roles example_db)) \<and>
   create_role example_db 5 200 support =
     Inr (example_db\<lparr>roles := roles example_db @ [made_role]\<rparr>,
          made_role) \<and>
   roles (example_db\<lparr>roles := roles example_db @ [made_role]\<rparr>) =
     roles example_db @ [made_role] \<and>
   get_functions example_db 1 2 = take 2 (drop 1 (functions example_db)) \<and>
   create_function example_db 5 200 invoice =
     Inr (example_db\<lparr>functions := functions example_db @ [made_function]\<rparr>,
          made_function) \<and>
   functions (example_db\<lparr>functions := functions example_db @ [made_function]\<rparr>) =
     functions example_db @ [made_function]"
  using list_in_insertion_order [where s = example_db and skip = 1 and limit = 2
      and nid = 5 and now = 200
      and pt = done_milk and ct = "example_db\<lparr>tasks := tasks example_db @ [made_task]\<rparr>"
      and t_made = "made_task"
      and pd = research and cd = "example_db\<lparr>departments := departments example_db @ [made_department]\<rparr>"
      and d_made = "made_department"
      and pr = support and cr = "example_db\<lparr>roles := roles example_db @ [made_role]\<rparr>"
      and r_made = "made_role"
      and pf = invoice and cf = "example_db\<lparr>functions := functions example_db @ [made_function]\<rparr>"
      and f_made = "made_function"]
    example_create_task example_create_department example_create_role example_create_function
  by simp

text \<open>
  C8. Ids are unique per entity type in every state that writing requests produce from the
  empty database. The id of a created row is the one the storage assigned, and it was not
  in the table. No request changes the id of a row that exists: in each table a request
  leaves every position with its id, or adds one row with a new id at the end, or removes
  rows and leaves the others as they are.
\<close>

theorem ids_unique_and_stable:
  "ids_unique (serve_all reqs) \<and>
   (create_task s nid now pt = Inr (ct, t_made) \<longrightarrow>
      t_id t_made = nid \<and> nid \<notin> t_id ` set (tasks s)) \<and>
   rows_kept t_id (tasks s) (tasks (serve s q)) \<and>
   (create_department s nid now pd = Inr (cd, d_made) \<longrightarrow>
      d_id d_made = nid \<and> nid \<notin> d_id ` set (departments s)) \<and>
   rows_kept d_id (departments s) (departments (serve s q)) \<and>
   (create_role s nid now pr = Inr (cr, r_made) \<longrightarrow>
      r_id r_made = nid \<and> nid \<notin> r_id ` set (roles s)) \<and>
   rows_kept r_id (roles s) (roles (serve s q)) \<and>
   (create_function s nid now pf = Inr (cf, f_made) \<longrightarrow>
      f_id f_made = nid \<and> nid \<notin> f_id ` set (functions s)) \<and>
   rows_kept f_id (functions s) (functions (serve s q))"
proof -
  have made_task: "create_task s nid now pt = Inr (ct, t_made) \<longrightarrow>
      t_id t_made = nid \<and> nid \<notin> t_id ` set (tasks s)"
    by (auto simp: create_task_def Let_def split: if_splits)
  have made_department: "create_department s nid now pd = Inr (cd, d_made) \<longrightarrow>
      d_id d_made = nid \<and> nid \<notin> d_id ` set (departments s)"
    by (auto simp: create_department_def Let_def split: if_splits)
  have made_role: "create_role s nid now pr = Inr (cr, r_made) \<longrightarrow>
      r_id r_made = nid \<and> nid \<notin> r_id ` set (roles s)"
    by (auto simp: create_role_def Let_def split: if_splits)
  have made_function: "create_function s nid now pf = Inr (cf, f_made) \<longrightarrow>
      f_id f_made = nid \<and> nid \<notin> f_id ` set (functions s)"
    by (auto simp: create_function_def Let_def split: if_splits)
  note kept = rows_kept_serve [of s q]
  show ?thesis
    by (intro conjI ids_unique_serve_all made_task made_department made_role made_function
        kept [THEN conjunct1] kept [THEN conjunct2, THEN conjunct1]
        kept [THEN conjunct2, THEN conjunct2, THEN conjunct1]
        kept [THEN conjunct2, THEN conjunct2, THEN conjunct2])
qed

theorem ids_unique_and_stable_witness:
  "ids_unique (serve_all example_requests) \<and>
   create_task example_db 5 200 done_milk =
     Inr (example_db\<lparr>tasks := tasks example_db @ [made_task]\<rparr>,
          made_task) \<and>
   t_id made_task = 5 \<and>
   5 \<notin> t_id ` set (tasks example_db) \<and>
   create_department example_db 5 200 research =
     Inr (example_db\<lparr>departments := departments example_db @ [made_department]\<rparr>,
          made_department) \<and>
   d_id made_department = 5 \<and>
   5 \<notin> d_id ` set (departments example_db) \<and>
   create_role example_db 5 200 support =
     Inr (example_db\<lparr>roles := roles example_db @ [made_role]\<rparr>,
          made_role) \<and>
   r_id made_role = 5 \<and>
   5 \<notin> r_id ` set (roles example_db) \<and>
   create_function example_db 5 200 invoice =
     Inr (example_db\<lparr>functions := functions example_db @ [made_function]\<rparr>,
          made_function) \<and>
   f_id made_function = 5 \<and>
   5 \<notin> f_id ` set (functions example_db)"
  using ids_unique_and_stable [where reqs = example_requests and s = example_db
      and nid = 5 and now = 200
      and pt = done_milk and ct = "example_db\<lparr>tasks := tasks example_db @ [made_task]\<rparr>"
      and t_made = "made_task"
      and pd = research and cd = "example_db\<lparr>departments := departments example_db @ [made_department]\<rparr>"
      and d_made = "made_department"
      and pr = support and cr = "example_db\<lparr>roles := roles example_db @ [made_role]\<rparr>"
      and r_made = "made_role"
      and pf = invoice and cf = "example_db\<lparr>functions := functions example_db @ [made_function]\<rparr>"
      and f_made = "made_function"]
    example_create_task example_create_department example_create_role example_create_function
  by simp



text \<open>
  C7. The child-listing handlers never raise: they return the list that the repository
  returns, whatever the parent id. In a state whose foreign keys are valid, a parent id that
  matches no department (no role) gives the empty list. Every state that writing requests
  produce from the empty database has valid foreign keys (the engine rejects a role or a
  function whose parent is missing, and a delete cascades).
\<close>

theorem child_listing_absent_parent:
  "references_valid (serve_all reqs) \<and>
   read_roles_by_department s i skip limit = (s, Inr (get_roles_by_department s i skip limit)) \<and>
   read_functions_by_role s i skip limit = (s, Inr (get_functions_by_role s i skip limit)) \<and>
   (references_valid s \<and> i \<notin> d_id ` set (departments s) \<longrightarrow>
      read_roles_by_department s i skip limit = (s, Inr [])) \<and>
   (references_valid s \<and> i \<notin> r_id ` set (roles s) \<longrightarrow>
      read_functions_by_role s i skip limit = (s, Inr []))"
proof (intro conjI impI)
  show "references_valid (serve_all reqs)" by (rule references_valid_serve_all)
  show "read_roles_by_department s i skip limit =
      (s, Inr (get_roles_by_department s i skip limit))"
    by (simp add: read_roles_by_department_def)
  show "read_functions_by_role s i skip limit = (s, Inr (get_functions_by_role s i skip limit))"
    by (simp add: read_functions_by_role_def)
next
  assume a: "references_valid s \<and> i \<notin> d_id ` set (departments s)"
  then have "\<forall>r \<in> set (roles s). r_department_id r \<noteq> i"
    by (auto simp: references_valid_def list_all_iff)
  then have "filter (\<lambda>r. r_department_id r = i) (roles s) = []"
    by (simp add: filter_empty_conv)
  then show "read_roles_by_department s i skip limit = (s, Inr [])"
    by (simp add: read_roles_by_department_def get_roles_by_department_def limit_q_def
        offset_q_def)
next
  assume a: "references_valid s \<and> i \<notin> r_id ` set (roles s)"
  then have "\<forall>f \<in> set (functions s). f_role_id f \<noteq> i"
    by (auto simp: references_valid_def list_all_iff)
  then have "filter (\<lambda>f. f_role_id f = i) (functions s) = []"
    by (simp add: filter_empty_conv)
  then show "read_functions_by_role s i skip limit = (s, Inr [])"
    by (simp add: read_functions_by_role_def get_functions_by_role_def limit_q_def
        offset_q_def)
qed

theorem child_listing_absent_parent_witness:
  "(references_valid example_db \<and> 7 \<notin> d_id ` set (departments example_db) \<and>
    7 \<notin> r_id ` set (roles example_db)) \<and>
   read_roles_by_department example_db 7 0 100 = (example_db, Inr []) \<and>
   read_functions_by_role example_db 7 0 100 = (example_db, Inr [])"
proof -
  note t = child_listing_absent_parent [of example_requests example_db 7 0 100]
  from t have v: "references_valid example_db" by (simp add: example_db_def)
  have "7 \<notin> d_id ` set (departments example_db) \<and> 7 \<notin> r_id ` set (roles example_db)"
    by (simp add: example_db_eq)
  with t v show ?thesis by blast
qed

text \<open>
  C1. Deleting a department that exists, in a state with unique ids. With N the number of
  roles whose \<open>department_id\<close> is the department's id and M the number of functions whose
  \<open>role_id\<close> is the id of one of these roles, the delete removes exactly N + M + 1 rows: the
  department, the N roles and the M functions, and no task. It returns the department as
  it was. In the state after it, get on the department, on each of these roles and on each
  of these functions returns not-found, and the GET handlers answer with HTTP 404.
\<close>

theorem delete_department_cascades:
  "ids_unique s \<and> get_department s i = Some d \<and> delete_department s i = (s', res) \<longrightarrow>
     res = Some d \<and> org_delete_department s i = (s', Inr d) \<and>
     row_count s =
       row_count s' + length (department_roles s i) + length (department_functions s i) + 1 \<and>
     length (departments s) = length (departments s') + 1 \<and>
     length (roles s) = length (roles s') + length (department_roles s i) \<and>
     length (functions s) = length (functions s') + length (department_functions s i) \<and>
     tasks s' = tasks s \<and>
     get_department s' i = None \<and>
     (\<forall>r \<in> set (department_roles s i).
        get_role s' (r_id r) = None \<and>
        read_role s' (r_id r) = (s', Inl (HTTPException 404 ''Role not found''))) \<and>
     (\<forall>f \<in> set (department_functions s i).
        get_function s' (f_id f) = None \<and>
        read_function s' (f_id f) = (s', Inl (HTTPException 404 ''Function not found'')))"
proof (intro impI)
  assume a: "ids_unique s \<and> get_department s i = Some d \<and> delete_department s i = (s', res)"
  then have u: "ids_unique s" and g: "get_department s i = Some d"
    and del: "delete_department s i = (s', res)"
    by simp_all
  let ?R = "set (map r_id (department_roles s i))"
  from del g have res: "res = Some d"
    and s': "s' = s\<lparr>departments := filter (\<lambda>d. d_id d \<noteq> i) (departments s),
                     roles := filter (\<lambda>r. r_department_id r \<noteq> i) (roles s),
                     functions := filter (\<lambda>f. f_role_id f \<notin> ?R) (functions s)\<rparr>"
    by (simp_all add: delete_department_def)
  have handler: "org_delete_department s i = (s', Inr d)"
    using del res by (simp add: org_delete_department_def)
  from g have "i \<in> d_id ` set (departments s)"
    by (auto simp: get_department_def dest: find_key)
  moreover from u have "distinct (map d_id (departments s))" by (simp add: ids_unique_def)
  ultimately have nd: "length (departments s) = length (departments s') + 1"
    using length_remove_key [of d_id "departments s" i] by (simp add: s')
  have nr: "length (roles s) = length (roles s') + length (department_roles s i)"
    using length_filter_split [of "\<lambda>r. r_department_id r = i" "roles s"]
    by (simp add: s' department_roles_def)
  have nf: "length (functions s) = length (functions s') + length (department_functions s i)"
    using length_filter_split [of "\<lambda>f. f_role_id f \<in> ?R" "functions s"]
    by (simp add: s' department_functions_def)
  have nt: "tasks s' = tasks s" by (simp add: s')
  have total: "row_count s =
      row_count s' + length (department_roles s i) + length (department_functions s i) + 1"
    using nd nr nf nt by (simp add: row_count_def)
  have gone: "get_department s' i = None"
    by (simp add: s' get_department_def find_removed)
  have roles_gone: "\<forall>r \<in> set (department_roles s i).
        get_role s' (r_id r) = None \<and>
        read_role s' (r_id r) = (s', Inl (HTTPException 404 ''Role not found''))"
  proof
    fix r assume r: "r \<in> set (department_roles s i)"
    then have rin: "r \<in> set (roles s)" and rdep: "r_department_id r = i"
      by (simp_all add: department_roles_def)
    from u have dist: "distinct (map r_id (roles s))" by (simp add: ids_unique_def)
    have "r_id r \<notin> r_id ` set (roles s')"
    proof
      assume "r_id r \<in> r_id ` set (roles s')"
      then obtain x where x: "x \<in> set (roles s)" "r_department_id x \<noteq> i" "r_id x = r_id r"
        by (auto simp: s')
      from distinct_key_eq [OF dist x(1) rin x(3)] have "x = r" .
      with x(2) rdep show False by simp
    qed
    then have "get_role s' (r_id r) = None"
      by (simp add: get_role_def find_absent)
    then show "get_role s' (r_id r) = None \<and>
        read_role s' (r_id r) = (s', Inl (HTTPException 404 ''Role not found''))"
      by (simp add: read_role_def not_found_def)
  qed
  have functions_gone: "\<forall>f \<in> set (department_functions s i).
        get_function s' (f_id f) = None \<and>
        read_function s' (f_id f) = (s', Inl (HTTPException 404 ''Function not found''))"
  proof
    fix f assume f: "f \<in> set (department_functions s i)"
    then have fin: "f \<in> set (functions s)" and frole: "f_role_id f \<in> ?R"
      by (simp_all add: department_functions_def)
    from u have dist: "distinct (map f_id (functions s))" by (simp add: ids_unique_def)
    have "f_id f \<notin> f_id ` set (functions s')"
    proof
      assume "f_id f \<in> f_id ` set (functions s')"
      then obtain x where x: "x \<in> set (functions s)" "f_role_id x \<notin> ?R" "f_id x = f_id f"
        by (auto simp: s')
      from distinct_key_eq [OF dist x(1) fin x(3)] have "x = f" .
      with x(2) frole show False by simp
    qed
    then have "get_function s' (f_id f) = None"
      by (simp add: get_function_def find_absent)
    then show "get_function s' (f_id f) = None \<and>
        read_function s' (f_id f) = (s', Inl (HTTPException 404 ''Function not found''))"
      by (simp add: read_function_def not_found_def)
  qed
  show "res = Some d \<and> org_delete_department s i = (s', Inr d) \<and>
     row_count s =
       row_count s' + length (department_roles s i) + length (department_functions s i) + 1 \<and>
     length (departments s) = length (departments s') + 1 \<and>
     length (roles s) = length (roles s') + length (department_roles s i) \<and>
     length (functions s) = length (functions s') + length (department_functions s i) \<and>
     tasks s' = tasks s \<and>
     get_department s' i = None \<and>
     (\<forall>r \<in> set (department_roles s i).
        get_role s' (r_id r) = None \<and>
        read_role s' (r_id r) = (s', Inl (HTTPException 404 ''Role not found''))) \<and>
     (\<forall>f \<in> set (department_functions s i).
        get_function s' (f_id f) = None \<and>
        read_function s' (f_id f) = (s', Inl (HTTPException 404 ''Function not found'')))"
    by (intro conjI res handler total nd nr nf nt gone roles_gone functions_gone)
qed

theorem delete_department_cascades_witness:
  "(ids_unique example_db \<and>
    get_department example_db 1 =
      Some stored_department \<and>
    delete_department example_db 1 =
      (sales_only,
       Some stored_department)) \<and>
   length (department_roles example_db 1) = 2 \<and>
   length (department_functions example_db 1) = 3 \<and>
   row_count example_db = row_count sales_only + 2 + 3 + 1 \<and>
   get_department sales_only 1 = None \<and>
   get_role sales_only 1 = None \<and> get_role sales_only 2 = None \<and>
   read_role sales_only 2 = (sales_only, Inl (HTTPException 404 ''Role not found'')) \<and>
   get_function sales_only 1 = None \<and> get_function sales_only 2 = None \<and>
   get_function sales_only 3 = None \<and>
   read_function sales_only 3 = (sales_only, Inl (HTTPException 404 ''Function not found''))"
  using delete_department_cascades [of example_db 1
      stored_department
      sales_only
      "Some stored_department"]
    example_ids_unique example_get_department example_delete_department
  by (simp add: example_department_roles example_department_functions)

end
